theory Spec2Isabelle
  imports Complex_Main "HOL-Library.Product_Lexorder" "HOL-Library.Multiset"
begin

section \<open>Numbers\<close>

text \<open>
  Python floats are modelled as real numbers: every arithmetic step is exact. The decimal
  rounding \<^verbatim>\<open>round(x, n)\<close> of Python rounds to the nearest multiple of \<open>10^-n\<close>; on a
  tie \<open>py_round\<close> takes the even neighbour. Python rounds the double that holds \<open>x\<close>,
  so where the exact value is on (or within floating-point error of) a decimal tie the
  program may store the other neighbour: \<open>py_round\<close> stands for the program's value
  away from ties only. What holds of every such rounding is that the result is within
  half a unit of the last decimal of its argument, up to floating-point error; the
  scoring engine below takes the rounding as a parameter for that reason.
\<close>

definition round_half_even :: "real \<Rightarrow> int" where
  "round_half_even y =
     (let f = \<lfloor>y\<rfloor>; d = y - of_int f
      in if d < 1 / 2 then f
         else if 1 / 2 < d then f + 1
         else if even f then f else f + 1)"

definition py_round :: "real \<Rightarrow> nat \<Rightarrow> real" where
  "py_round x n = of_int (round_half_even (x * 10 ^ n)) / 10 ^ n"

section \<open>Data model\<close>

text \<open>
  The dictionaries exchanged between the modules have a fixed set of keys; each key is a
  field, \<open>None\<close> when the key is absent, so that \<^verbatim>\<open>d.get(k, default)\<close> is a case
  distinction on the field. The empty dictionary has every field \<open>None\<close>. A field has
  the name of its key; where two dictionaries share a key, or a key is the name of a
  type, the field has a prefix or a suffix: \<open>summary_error\<close> and \<open>audio_error\<close> are the
  two keys \<^verbatim>\<open>error\<close>, \<open>qs_engagement\<close> and \<open>qs_overall\<close> the keys \<^verbatim>\<open>engagement\<close> and
  \<^verbatim>\<open>overall\<close> of the quality scores, \<open>bd_\<dots>\<close> the keys of the breakdown.
\<close>

definition get_or :: "'a option \<Rightarrow> 'a \<Rightarrow> 'a" where
  "get_or v d = (case v of None \<Rightarrow> d | Some x \<Rightarrow> x)"

text \<open>The dictionary returned by \<^verbatim>\<open>EmotionAnalyzer._generate_summary\<close>.\<close>

record emotion_summary =
  summary_error :: "string option"
  total_frames_analyzed :: "nat option"
  frames_with_face :: "nat option"
  face_detection_rate :: "real option"
  eye_contact_percentage :: "real option"
  average_smile_authenticity :: "real option"
  average_engagement_level :: "real option"
  emotion_distribution :: "(string \<times> real) list option"
  dominant_emotion :: "string option"
  emotional_variability :: "real option"

definition empty_summary :: emotion_summary where
  "empty_summary =
     \<lparr>summary_error = None, total_frames_analyzed = None, frames_with_face = None,
      face_detection_rate = None, eye_contact_percentage = None,
      average_smile_authenticity = None, average_engagement_level = None,
      emotion_distribution = None, dominant_emotion = None, emotional_variability = None\<rparr>"

text \<open>Truth value of a summary dictionary: a dictionary is true when it has a key.\<close>

definition summary_truthy :: "emotion_summary \<Rightarrow> bool" where
  "summary_truthy s \<longleftrightarrow> s \<noteq> empty_summary"

section \<open>Errors and list helpers\<close>

text \<open>Exceptions are values; each carries the text that \<^verbatim>\<open>str(e)\<close> gives.\<close>

datatype py_error = KeyError string | ValueError string | IndexError string | OtherError string

fun str_of_error :: "py_error \<Rightarrow> string" where
  "str_of_error (KeyError m) = m"
| "str_of_error (ValueError m) = m"
| "str_of_error (IndexError m) = m"
| "str_of_error (OtherError m) = m"

text \<open>
  \<^verbatim>\<open>max(xs, key=f)\<close>: the first element whose key is maximal; on the empty list
  Python raises, here \<open>None\<close>.
\<close>

fun py_max_key :: "('a \<Rightarrow> 'b::linorder) \<Rightarrow> 'a list \<Rightarrow> 'a option" where
  "py_max_key f [] = None"
| "py_max_key f (x # xs) = Some (foldl (\<lambda>b y. if f b < f y then y else b) x xs)"

text \<open>
  \<^verbatim>\<open>sorted(xs, key=f, reverse=True)\<close>: descending by key, elements with equal keys in
  their original order. The keys here are numbers, so this is the stable ascending sort
  by the negated key.
\<close>

definition sorted_desc :: "('a \<Rightarrow> real) \<Rightarrow> 'a list \<Rightarrow> 'a list" where
  "sorted_desc f xs = sort_key (\<lambda>x. - f x) xs"

text \<open>
  \<^verbatim>\<open>xs[::k]\<close> for a step \<open>k > 0\<close>: the elements at the indices \<open>0, k, 2k, \<dots>\<close> below the
  length. (A step of 0 raises in Python; every use here has \<open>k \<ge> 1\<close>.)
\<close>

definition py_slice_step :: "nat \<Rightarrow> 'a list \<Rightarrow> 'a list" where
  "py_slice_step k xs = map (\<lambda>i. xs ! (i * k)) [0..<(length xs + k - 1) div k]"

text \<open>\<^verbatim>\<open>np.mean\<close> of a non-empty list.\<close>

definition np_mean :: "real list \<Rightarrow> real" where
  "np_mean xs = sum_list xs / real (length xs)"

text \<open>
  \<^verbatim>\<open>collections.Counter\<close>: counts per key, the keys in the order in which they were
  first seen.
\<close>

fun counter_add :: "'a \<Rightarrow> ('a \<times> nat) list \<Rightarrow> ('a \<times> nat) list" where
  "counter_add x [] = [(x, 1)]"
| "counter_add x ((k, c) # kvs) =
     (if k = x then (k, Suc c) # kvs else (k, c) # counter_add x kvs)"

definition Counter :: "'a list \<Rightarrow> ('a \<times> nat) list" where
  "Counter xs = foldl (\<lambda>acc x. counter_add x acc) [] xs"

text \<open>\<^verbatim>\<open>counter.most_common(1)\<close>: the first entry of maximal count, or nothing.\<close>

definition most_common_1 :: "('a \<times> nat) list \<Rightarrow> ('a \<times> nat) list" where
  "most_common_1 items = (case py_max_key snd items of None \<Rightarrow> [] | Some kv \<Rightarrow> [kv])"

section \<open>Facial analysis (emotion\_analyzer.py)\<close>

record frame_metrics =
  eyes_detected :: nat
  smile_detected :: bool
  face_size :: int
  face_position_x :: real
  face_position_y :: real

text \<open>
  One entry of the timeline. \<^verbatim>\<open>_analyze_single_frame\<close> returns a dictionary of two
  shapes; the keys of the second shape only are optional fields.
\<close>

record frame =
  frame_index :: nat
  face_detected :: bool
  timestamp :: real
  emotion :: "string option"
  emotion_confidence :: "real option"
  secondary_emotions :: "string list option"
  eye_contact :: "bool option"
  smile_score :: "real option"
  engagement_level :: "real option"
  metrics :: "frame_metrics option"

text \<open>
  The rectangles of \<^verbatim>\<open>detectMultiScale\<close> are arrays of 32-bit integers, and the product
  of two of their entries wraps around.
\<close>

definition int32 :: "int \<Rightarrow> int" where
  "int32 z = (z + 2 ^ 31) mod 2 ^ 32 - 2 ^ 31"

text \<open>
  What the cascade detectors return for one frame: the frame's shape, the face
  rectangles \<open>(x, y, w, h)\<close>, and the numbers of eyes and smiles found in the region of
  the largest face.
\<close>

record detection =
  frame_height :: nat
  frame_width :: nat
  faces :: "(int \<times> int \<times> int \<times> int) list"
  eyes :: nat
  smiles :: nat

record emotion_estimate =
  primary :: string
  est_confidence :: real
  secondary :: "string list"

definition estimate_emotion :: "bool \<Rightarrow> bool \<Rightarrow> nat \<Rightarrow> nat \<Rightarrow> emotion_estimate" where
  "estimate_emotion has_eyes has_smile eye_count smile_count =
     (let emotions0 =
            (if has_smile \<and> 2 \<le> eye_count then [(''happy'', 0.8)]
             else if has_smile \<and> eye_count < 2 then [(''happy'', 0.5), (''nervous'', 0.4)]
             else if \<not> has_smile \<and> 2 \<le> eye_count then [(''neutral'', 0.6), (''confident'', 0.5)]
             else if \<not> has_smile \<and> eye_count < 2 then [(''thoughtful'', 0.5), (''nervous'', 0.4)]
             else [(''neutral'', 0.5)]);
          emotions1 = (if has_eyes \<and> \<not> has_smile then emotions0 @ [(''confident'', 0.6)]
                       else emotions0);
          emotions = sorted_desc snd emotions1
      in \<lparr>primary = (case emotions of [] \<Rightarrow> ''neutral'' | e # _ \<Rightarrow> fst e),
          est_confidence = (case emotions of [] \<Rightarrow> 0.5 | e # _ \<Rightarrow> snd e),
          secondary = map fst (take 2 (drop 1 emotions))\<rparr>)"

definition calculate_smile_score :: "bool \<Rightarrow> bool \<Rightarrow> nat \<Rightarrow> real" where
  "calculate_smile_score has_smile has_eyes smile_count =
     (if \<not> has_smile then 0
      else let base0 = 0.5;
               base1 = (if has_eyes then base0 + 0.3 else base0);
               base2 = (if 1 < smile_count then base1 + 0.2 else base1)
           in min 1 base2)"

definition calculate_engagement :: "bool \<Rightarrow> bool \<Rightarrow> bool \<Rightarrow> real" where
  "calculate_engagement has_eyes eye_contact' has_smile =
     (let e0 = 0;
          e1 = (if has_eyes then e0 + 0.3 else e0);
          e2 = (if eye_contact' then e1 + 0.4 else e1);
          e3 = (if has_smile then e2 + 0.3 else e2)
      in min 1 e3)"

definition analyze_single_frame :: "detection \<Rightarrow> nat \<Rightarrow> frame" where
  "analyze_single_frame d frame_idx =
     (case py_max_key (\<lambda>(x, y, w, h). int32 (w * h)) (faces d) of
        None \<Rightarrow>
          \<lparr>frame_index = frame_idx, face_detected = False, timestamp = real frame_idx / 5,
           emotion = None, emotion_confidence = None, secondary_emotions = None,
           eye_contact = None, smile_score = None, engagement_level = None, metrics = None\<rparr>
      | Some (x, y, w, h) \<Rightarrow>
          (let has_eyes = (2 \<le> eyes d);
               has_smile = (0 < smiles d);
               frame_center_x = real (frame_width d) / 2;
               frame_center_y = real (frame_height d) / 2;
               face_center_x = of_int x + of_int w / 2;
               face_center_y = of_int y + of_int h / 2;
               distance_from_center =
                 sqrt ((face_center_x - frame_center_x)\<^sup>2 + (face_center_y - frame_center_y)\<^sup>2);
               max_distance = sqrt ((real (frame_height d))\<^sup>2 + (real (frame_width d))\<^sup>2) / 4;
               eye_contact' = (distance_from_center < max_distance * 0.5);
               em = estimate_emotion has_eyes has_smile (eyes d) (smiles d);
               smile_score' = calculate_smile_score has_smile has_eyes (smiles d);
               engagement = calculate_engagement has_eyes eye_contact' has_smile
           in \<lparr>frame_index = frame_idx, face_detected = True, timestamp = real frame_idx / 5,
               emotion = Some (primary em), emotion_confidence = Some (est_confidence em),
               secondary_emotions = Some (secondary em),
               eye_contact = Some eye_contact', smile_score = Some smile_score',
               engagement_level = Some engagement,
               metrics = Some \<lparr>eyes_detected = eyes d, smile_detected = has_smile,
                               face_size = int32 (w * h), face_position_x = face_center_x,
                               face_position_y = face_center_y\<rparr>\<rparr>))"

text \<open>
  \<^verbatim>\<open>_generate_summary\<close> of the facial analyzer. \<^verbatim>\<open>f["emotion"]\<close> raises when a frame
  with a face has no label.
\<close>

definition frame_emotions :: "frame list \<Rightarrow> py_error + string list" where
  "frame_emotions valid_frames =
     (if \<forall>f \<in> set valid_frames. emotion f \<noteq> None
      then Inr (map (\<lambda>f. the (emotion f)) valid_frames)
      else Inl (KeyError ''emotion''))"

definition no_face_summary :: emotion_summary where
  "no_face_summary = empty_summary\<lparr>summary_error := Some ''No faces detected in video''\<rparr>"

definition generate_summary :: "frame list \<Rightarrow> py_error + emotion_summary" where
  "generate_summary tline =
     (let valid_frames = filter face_detected tline
      in if valid_frames = [] then
           Inr no_face_summary
         else
           (case frame_emotions valid_frames of
              Inl e \<Rightarrow> Inl e
            | Inr emotions \<Rightarrow>
                (let eye_contact_frames =
                       length (filter (\<lambda>f. get_or (eye_contact f) False) valid_frames);
                     avg_smile = np_mean (map (\<lambda>f. get_or (smile_score f) 0) valid_frames);
                     avg_engagement =
                       np_mean (map (\<lambda>f. get_or (engagement_level f) 0) valid_frames);
                     emotion_dist = Counter emotions;
                     total_emotions = length emotions
                 in (case most_common_1 emotion_dist of
                       [] \<Rightarrow> Inl (IndexError ''list index out of range'')
                     | best # _ \<Rightarrow>
                         Inr \<lparr>summary_error = None,
                              total_frames_analyzed = Some (length tline),
                              frames_with_face = Some (length valid_frames),
                              face_detection_rate =
                                Some (real (length valid_frames) / real (length tline)),
                              eye_contact_percentage =
                                Some (real eye_contact_frames / real (length valid_frames) * 100),
                              average_smile_authenticity = Some (py_round avg_smile 2),
                              average_engagement_level = Some (py_round avg_engagement 2),
                              emotion_distribution =
                                Some (map (\<lambda>(e, count).
                                        (e, py_round (real count / real total_emotions * 100) 1))
                                      emotion_dist),
                              dominant_emotion = Some (fst best),
                              emotional_variability =
                                Some (real (length (remdups emotions)) / 7)\<rparr>))))"

record facial_features =
  ff_eye_contact :: "bool list"
  ff_smile_authenticity :: "real list"

record emotion_data =
  timeline :: "frame list option"
  summary :: "emotion_summary option"
  features :: "facial_features option"

text \<open>The loop of \<^verbatim>\<open>analyze_frames\<close>: frame \<open>idx\<close> of the list is analysed with its index.\<close>

definition frames_timeline :: "detection list \<Rightarrow> frame list" where
  "frames_timeline frames = map (\<lambda>(idx, d). analyze_single_frame d idx) (enumerate 0 frames)"

definition analyze_frames :: "detection list \<Rightarrow> py_error + emotion_data" where
  "analyze_frames frames =
     (let tline = frames_timeline frames
      in case generate_summary tline of
           Inl e \<Rightarrow> Inl e
         | Inr s \<Rightarrow>
             Inr \<lparr>timeline = Some tline, summary = Some s,
                  features = Some \<lparr>ff_eye_contact = List.map_filter eye_contact tline,
                                   ff_smile_authenticity = List.map_filter smile_score tline\<rparr>\<rparr>)"

section \<open>Frame extraction (video\_processor.py)\<close>

text \<open>
  \<^verbatim>\<open>_extract_frames\<close>, on the frames that the capture returns in order: every
  \<open>frame_interval\<close>-th frame is kept, at most \<open>300 * frame_rate\<close> of them. The processor
  is built with its default \<open>frame_rate = 5\<close>.
\<close>

definition frame_rate :: nat where
  "frame_rate = 5"

definition frame_interval :: "real \<Rightarrow> nat" where
  "frame_interval fps' = (if real frame_rate < fps' then nat \<lfloor>fps' / real frame_rate\<rfloor> else 1)"

definition extract_frames :: "real \<Rightarrow> 'a list \<Rightarrow> 'a list" where
  "extract_frames fps' video =
     take (300 * frame_rate) (py_slice_step (frame_interval fps') video)"

section \<open>Scores\<close>

text \<open>The \<^verbatim>\<open>quality_scores\<close> dictionary of the audio analysis.\<close>

record quality_scores =
  clarity :: "real option"
  confidence :: "real option"
  qs_engagement :: "real option"
  qs_overall :: "real option"

definition empty_quality :: quality_scores where
  "empty_quality = \<lparr>clarity = None, confidence = None, qs_engagement = None, qs_overall = None\<rparr>"

definition quality_truthy :: "quality_scores \<Rightarrow> bool" where
  "quality_truthy q \<longleftrightarrow> q \<noteq> empty_quality"

text \<open>The score object returned by \<^verbatim>\<open>_calculate_performance_score\<close>.\<close>

record breakdown =
  bd_eye_contact :: real
  bd_smile_authenticity :: real
  bd_engagement :: real
  bd_voice_clarity :: real
  bd_voice_confidence :: real
  bd_voice_engagement :: real

record performance_score =
  overall :: real
  facial_score :: real
  voice_score :: real
  score_breakdown :: breakdown

section \<open>Audio analysis (audio\_analyzer.py)\<close>

subsection \<open>numpy\<close>

definition np_var :: "real list \<Rightarrow> real" where
  "np_var xs = np_mean (map (\<lambda>x. (x - np_mean xs)\<^sup>2) xs)"

definition np_std :: "real list \<Rightarrow> real" where
  "np_std xs = sqrt (np_var xs)"

text \<open>\<^verbatim>\<open>np.max\<close> and \<^verbatim>\<open>np.min\<close> of a non-empty list.\<close>

definition np_max :: "real list \<Rightarrow> real" where
  "np_max xs = fold max (tl xs) (hd xs)"

definition np_min :: "real list \<Rightarrow> real" where
  "np_min xs = fold min (tl xs) (hd xs)"

text \<open>
  Division of numpy floats does not raise on a zero divisor: it emits a RuntimeWarning
  and returns nan for \<open>0 / 0\<close> and an infinity otherwise. This is the one place where
  the result of a division is followed beyond the real numbers.
\<close>

datatype npfloat = Fin real | PInf | NInf | NaN

definition np_div :: "real \<Rightarrow> real \<Rightarrow> npfloat" where
  "np_div a b =
     (if b \<noteq> 0 then Fin (a / b)
      else if a = 0 then NaN else if 0 < a then PInf else NInf)"

text \<open>
  \<^verbatim>\<open>min(1.0, v)\<close>: Python's \<open>min\<close> keeps \<open>1.0\<close> unless \<open>v < 1.0\<close>, and that comparison is
  false for nan and for \<open>+inf\<close>.
\<close>

definition py_min_one :: "npfloat \<Rightarrow> npfloat" where
  "py_min_one v = (case v of Fin r \<Rightarrow> Fin (min 1 r) | NInf \<Rightarrow> NInf | PInf \<Rightarrow> Fin 1 | NaN \<Rightarrow> Fin 1)"

subsection \<open>Measurements\<close>

text \<open>
  What librosa hands to the analyzer for one clip: the number of samples of \<open>y\<close>, per
  frame the pitch at the bin of largest magnitude (\<^verbatim>\<open>piptrack\<close>), the onset times, the
  RMS frames, and the non-silent intervals at 20 dB and at 25 dB.
\<close>

record measurements =
  n_samples :: nat
  pitch_track :: "real list"
  onsets :: "real list"
  rms :: "real list"
  intervals_20 :: "(int \<times> int) list"
  intervals_25 :: "(int \<times> int) list"

text \<open>The sample rate: \<^verbatim>\<open>librosa.load(audio_path, sr=16000)\<close>.\<close>

definition sr :: real where
  "sr = 16000"

subsection \<open>The analysis dictionaries\<close>

record prosody =
  variation :: "real option"
  mean_pitch_hz :: "real option"
  pitch_std :: "real option"
  range_hz :: "real option"
  variation_score :: "real option"
  monotone_score :: "real option"

record speaking_rate =
  words_per_minute :: "real option"
  pace :: "string option"
  pace_score :: "real option"
  total_speech_segments :: "nat option"
  avg_segment_duration :: "real option"

record energy_analysis =
  mean_energy :: "real option"
  energy_variation :: "real option"
  dynamic_range :: "real option"
  consistency_score :: "real option"
  low_energy_ratio :: "real option"
  confidence_indicator :: "real option"

record pause_analysis =
  total_pauses :: "nat option"
  avg_pause_duration :: "real option"
  max_pause_duration :: "real option"
  speaking_time_ratio :: "npfloat option"
  pause_quality :: "string option"
  naturalness_score :: "real option"

record pitch_analysis =
  average_pitch :: "real option"
  average_pitch_hz :: "real option"
  pitch_stability :: "real option"
  pitch_range_hz :: "real option"
  expressiveness :: "real option"

record filler_words =
  estimated_filler_count :: nat
  filler_rate :: real
  filler_note :: string

text \<open>
  The result of \<^verbatim>\<open>analyze_audio\<close>. The fields \<open>prosody_analysis\<close>,
  \<open>speaking_rate_analysis\<close>, \<open>energy\<close>, \<open>pauses\<close>, \<open>pitch\<close>, \<open>fillers\<close> and \<open>quality\<close>
  are the keys \<^verbatim>\<open>prosody\<close>, \<^verbatim>\<open>speaking_rate\<close>, \<^verbatim>\<open>energy_analysis\<close>,
  \<^verbatim>\<open>pause_analysis\<close>, \<^verbatim>\<open>pitch_analysis\<close>, \<^verbatim>\<open>filler_words\<close> and \<^verbatim>\<open>quality_scores\<close>.
\<close>

record audio_data =
  audio_error :: "string option"
  duration_seconds :: "real option"
  prosody_analysis :: "prosody option"
  speaking_rate_analysis :: "speaking_rate option"
  energy :: "energy_analysis option"
  pauses :: "pause_analysis option"
  pitch :: "pitch_analysis option"
  fillers :: "filler_words option"
  quality :: "quality_scores option"
  recommendations :: "string list option"

definition empty_prosody :: prosody where
  "empty_prosody = \<lparr>variation = None, mean_pitch_hz = None, pitch_std = None, range_hz = None,
                     variation_score = None, monotone_score = None\<rparr>"

definition empty_speaking_rate :: speaking_rate where
  "empty_speaking_rate = \<lparr>words_per_minute = None, pace = None, pace_score = None,
                           total_speech_segments = None, avg_segment_duration = None\<rparr>"

definition empty_energy :: energy_analysis where
  "empty_energy = \<lparr>mean_energy = None, energy_variation = None, dynamic_range = None,
                    consistency_score = None, low_energy_ratio = None,
                    confidence_indicator = None\<rparr>"

definition empty_pauses :: pause_analysis where
  "empty_pauses = \<lparr>total_pauses = None, avg_pause_duration = None, max_pause_duration = None,
                    speaking_time_ratio = None, pause_quality = None, naturalness_score = None\<rparr>"

definition empty_pitch :: pitch_analysis where
  "empty_pitch = \<lparr>average_pitch = None, average_pitch_hz = None, pitch_stability = None,
                   pitch_range_hz = None, expressiveness = None\<rparr>"

definition empty_audio :: audio_data where
  "empty_audio = \<lparr>audio_error = None, duration_seconds = None, prosody_analysis = None,
                   speaking_rate_analysis = None, energy = None, pauses = None, pitch = None,
                   fillers = None, quality = None, recommendations = None\<rparr>"

subsection \<open>The five analyses\<close>

text \<open>The loop over the frames of \<^verbatim>\<open>piptrack\<close> keeps the positive pitches.\<close>

definition pitch_values :: "real list \<Rightarrow> real list" where
  "pitch_values track = filter (\<lambda>p. 0 < p) track"

definition analyze_prosody :: "real list \<Rightarrow> prosody" where
  "analyze_prosody track =
     (let pv = pitch_values track
      in if pv = [] then
           empty_prosody\<lparr>variation := Some 0, range_hz := Some 0, monotone_score := Some 1\<rparr>
         else
           (let pstd = np_std pv;
                pitch_range = np_max pv - np_min pv;
                monotone = 1 / (1 + pstd / 50)
            in \<lparr>variation = None, mean_pitch_hz = Some (np_mean pv), pitch_std = Some pstd,
                range_hz = Some pitch_range, variation_score = Some (min 1 (pstd / 100)),
                monotone_score = Some monotone\<rparr>))"

definition analyze_speaking_rate :: "nat \<Rightarrow> real list \<Rightarrow> speaking_rate" where
  "analyze_speaking_rate n ons =
     (let duration = real n / sr
      in if duration = 0 then
           empty_speaking_rate\<lparr>words_per_minute := Some 0, pace := Some ''unknown''\<rparr>
         else
           (let estimated_words = real (length ons) * 0.7;
                wpm = estimated_words / duration * 60;
                (pace', pace_score') =
                   (if wpm < 120 then (''slow'', 0.6)
                    else if 120 \<le> wpm \<and> wpm \<le> 160 then (''optimal'', 1)
                    else if 160 < wpm \<and> wpm \<le> 200 then (''fast'', 0.7)
                    else (''very_fast'', 0.4))
            in \<lparr>words_per_minute = Some (py_round wpm 1), pace = Some pace',
                pace_score = Some pace_score',
                total_speech_segments = Some (length ons),
                avg_segment_duration =
                  Some (if 0 < length ons then duration / real (length ons) else 0)\<rparr>))"

text \<open>
  \<^verbatim>\<open>_analyze_energy\<close>. On an empty array \<^verbatim>\<open>np.max\<close> raises. The quotient
  \<^verbatim>\<open>energy_std / mean_energy\<close> is not guarded; \<open>energy_std\<close> is a standard deviation,
  never negative, so the quotient is never \<open>-inf\<close> and \<^verbatim>\<open>min(1.0, \<dots>)\<close> is a finite
  number (lemma \<open>min_one_ratio_finite\<close> below); the last case is there for totality only.
\<close>

definition energy_ratio :: "real list \<Rightarrow> npfloat" where
  "energy_ratio rms_frames = np_div (np_std rms_frames) (np_mean rms_frames)"

definition analyze_energy :: "real list \<Rightarrow> py_error + energy_analysis" where
  "analyze_energy rms_frames =
     (if rms_frames = [] then
        Inl (ValueError ''zero-size array to reduction operation maximum which has no identity'')
      else
        (let mean_e = np_mean rms_frames;
             energy_std = np_std rms_frames;
             low_energy_threshold = mean_e * 0.5;
             low_ratio =
               real (length (filter (\<lambda>r. r < low_energy_threshold) rms_frames)) /
               real (length rms_frames);
             dyn_range = np_max rms_frames - np_min rms_frames;
             consistency =
               (case py_min_one (energy_ratio rms_frames) of Fin m \<Rightarrow> 1 - m | _ \<Rightarrow> 0)
         in Inr \<lparr>mean_energy = Some mean_e, energy_variation = Some energy_std,
                 dynamic_range = Some dyn_range, consistency_score = Some consistency,
                 low_energy_ratio = Some low_ratio,
                 confidence_indicator = Some (1 - low_ratio)\<rparr>))"

definition calculate_pause_naturalness :: "real list \<Rightarrow> real" where
  "calculate_pause_naturalness ps =
     (if ps = [] then 0.5
      else real (length (filter (\<lambda>p. 0.3 \<le> p \<and> p \<le> 0.8) ps)) / real (length ps))"

text \<open>
  The gaps between consecutive intervals:
  \<^verbatim>\<open>intervals[i + 1][0] / sr - intervals[i][1] / sr\<close> for \<open>i\<close> in \<open>range(len(intervals) - 1)\<close>.
\<close>

fun pause_durations :: "(int \<times> int) list \<Rightarrow> real list" where
  "pause_durations (a # b # rest) =
     (of_int (fst b) / sr - of_int (snd a) / sr) # pause_durations (b # rest)"
| "pause_durations _ = []"

text \<open>
  \<^verbatim>\<open>_analyze_pauses\<close>. The speaking ratio is a quotient of numpy numbers by the number
  of samples, with no guard: on a clip of 0 samples with an interval it is nan or an
  infinity.
\<close>

definition analyze_pauses :: "nat \<Rightarrow> (int \<times> int) list \<Rightarrow> pause_analysis" where
  "analyze_pauses n intervals =
     (if intervals = [] then
        empty_pauses\<lparr>total_pauses := Some 0, avg_pause_duration := Some 0,
                     speaking_time_ratio := Some (Fin 0)\<rparr>
      else
        (let ps = pause_durations intervals;
             speaking_frames = sum_list (map (\<lambda>(start, stop). stop - start) intervals);
             speaking_ratio = np_div (of_int speaking_frames) (real n);
             (avg_pause, quality') =
                (if ps \<noteq> [] then
                   (let avg = np_mean ps
                    in (avg, if avg < 0.3 then ''minimal_pauses''
                             else if 0.3 \<le> avg \<and> avg \<le> 0.8 then ''natural_pauses''
                             else ''long_pauses''))
                 else (0, ''continuous''))
         in \<lparr>total_pauses = Some (length ps), avg_pause_duration = Some avg_pause,
             max_pause_duration = Some (if ps \<noteq> [] then np_max ps else 0),
             speaking_time_ratio = Some speaking_ratio, pause_quality = Some quality',
             naturalness_score = Some (calculate_pause_naturalness ps)\<rparr>))"

definition analyze_pitch :: "real list \<Rightarrow> pitch_analysis" where
  "analyze_pitch track =
     (let pv = pitch_values track
      in if pv = [] then
           empty_pitch\<lparr>average_pitch := Some 0, pitch_stability := Some 0,
                       expressiveness := Some 0\<rparr>
         else
           (let stability = 1 / (1 + np_var pv / 1000);
                pstd = np_std pv;
                expr = min 1 (pstd / 80) * (1 - \<bar>pstd - 50\<bar> / 100)
            in \<lparr>average_pitch = None, average_pitch_hz = Some (np_mean pv),
                pitch_stability = Some stability,
                pitch_range_hz = Some (np_max pv - np_min pv),
                expressiveness = Some (max 0 expr)\<rparr>))"

definition analyze_fillers_from_audio :: "(int \<times> int) list \<Rightarrow> filler_words" where
  "analyze_fillers_from_audio intervals =
     (let short_segments =
            length (filter (\<lambda>(start, stop).
                      0.1 \<le> of_int (stop - start) / sr \<and> of_int (stop - start) / sr \<le> 0.5)
                    intervals);
          total_segments = length intervals;
          estimated_filler_rate =
            (if 0 < total_segments then real short_segments / real total_segments else 0)
      in \<lparr>estimated_filler_count = short_segments,
          filler_rate = py_round (estimated_filler_rate * 100) 1,
          filler_note = ''Filler detection requires speech transcription for accuracy''\<rparr>)"

subsection \<open>Quality scores\<close>

definition clarity_raw :: "speaking_rate \<Rightarrow> energy_analysis \<Rightarrow> real" where
  "clarity_raw sp en =
     get_or (pace_score sp) 0.5 * 0.6 + get_or (consistency_score en) 0.5 * 0.4"

definition confidence_raw :: "prosody \<Rightarrow> energy_analysis \<Rightarrow> pause_analysis \<Rightarrow> real" where
  "confidence_raw pr en pa =
     get_or (confidence_indicator en) 0.5 * 0.5 +
     (1 - get_or (monotone_score pr) 0.5) * 0.3 +
     get_or (naturalness_score pa) 0.5 * 0.2"

definition engagement_raw :: "prosody \<Rightarrow> pitch_analysis \<Rightarrow> real" where
  "engagement_raw pr pit =
     get_or (variation_score pr) 0.5 * 0.4 +
     get_or (expressiveness pit) 0.5 * 0.4 +
     (1 - get_or (monotone_score pr) 0.5) * 0.2"

definition calculate_quality_scores ::
  "prosody \<Rightarrow> speaking_rate \<Rightarrow> energy_analysis \<Rightarrow> pause_analysis \<Rightarrow> pitch_analysis
     \<Rightarrow> quality_scores" where
  "calculate_quality_scores pr sp en pa pit =
     (let clarity' = clarity_raw sp en;
          confidence' = confidence_raw pr en pa;
          engagement' = engagement_raw pr pit;
          overall' = clarity' * 0.3 + confidence' * 0.4 + engagement' * 0.3
      in \<lparr>clarity = Some (py_round clarity' 2), confidence = Some (py_round confidence' 2),
          qs_engagement = Some (py_round engagement' 2),
          qs_overall = Some (py_round overall' 2)\<rparr>)"

text \<open>
  \<^verbatim>\<open>_generate_recommendations\<close> indexes the four keys; it is only called on the
  dictionary built above, which has them all.
\<close>

definition generate_recommendations :: "quality_scores \<Rightarrow> py_error + string list" where
  "generate_recommendations qs =
     (case (clarity qs, confidence qs, qs_engagement qs, qs_overall qs) of
        (Some c, Some f, Some e, Some ov) \<Rightarrow>
          (let r1 = (if c < 0.6 then
                       [''Improve clarity by speaking at a moderate pace (120-160 words/minute) and maintaining consistent volume.'']
                     else []);
               r2 = (if f < 0.6 then
                       [''Boost confidence by increasing voice energy and reducing long pauses. Practice breathing techniques to maintain steady delivery.'']
                     else []);
               r3 = (if e < 0.6 then
                       [''Enhance engagement by varying your pitch and tone. Avoid monotone delivery by emphasizing key points and showing enthusiasm.'']
                     else []);
               r4 = (if 0.8 \<le> ov then
                       [''Excellent speaking quality! Your voice clarity, confidence, and engagement are all strong.'']
                     else []);
               rs = r1 @ r2 @ r3 @ r4
           in Inr (if rs = [] then
                     [''Good speaking quality overall. Continue practicing to maintain consistency.'']
                   else rs))
      | _ \<Rightarrow> Inl (KeyError ''quality_scores''))"

subsection \<open>The pipeline and its handler\<close>

text \<open>
  The body of the \<^verbatim>\<open>try\<close> of \<^verbatim>\<open>analyze_audio\<close>. Its argument is the outcome of the
  librosa calls: the measurements, or the exception one of them raised.
\<close>

definition audio_try_body :: "py_error + measurements \<Rightarrow> py_error + audio_data" where
  "audio_try_body loaded =
     (case loaded of
        Inl e \<Rightarrow> Inl e
      | Inr m \<Rightarrow>
          (let pr = analyze_prosody (pitch_track m);
               sp = analyze_speaking_rate (n_samples m) (onsets m)
           in case analyze_energy (rms m) of
                Inl e \<Rightarrow> Inl e
              | Inr en \<Rightarrow>
                  (let pa = analyze_pauses (n_samples m) (intervals_20 m);
                       pit = analyze_pitch (pitch_track m);
                       qs = calculate_quality_scores pr sp en pa pit;
                       fw = analyze_fillers_from_audio (intervals_25 m)
                   in case generate_recommendations qs of
                        Inl e \<Rightarrow> Inl e
                      | Inr recs \<Rightarrow>
                          Inr \<lparr>audio_error = None,
                               duration_seconds = Some (real (n_samples m) / sr),
                               prosody_analysis = Some pr, speaking_rate_analysis = Some sp,
                               energy = Some en, pauses = Some pa, pitch = Some pit,
                               fillers = Some fw, quality = Some qs,
                               recommendations = Some recs\<rparr>)))"

text \<open>\<^verbatim>\<open>analyze_audio\<close>: the \<^verbatim>\<open>except Exception\<close> clause turns a failure into a dictionary.\<close>

definition analyze_audio :: "py_error + measurements \<Rightarrow> audio_data" where
  "analyze_audio loaded =
     (case audio_try_body loaded of
        Inr result \<Rightarrow> result
      | Inl e \<Rightarrow>
          empty_audio\<lparr>audio_error := Some (''Audio analysis failed: '' @ str_of_error e),
                      duration_seconds := Some 0\<rparr>)"

section \<open>Scoring engine (report\_generator.py)\<close>

definition eye_contact_score :: "real \<Rightarrow> real" where
  "eye_contact_score eye_contact_pct = min 1 (eye_contact_pct / 80)"

text \<open>\<^verbatim>\<open>sum(emotion_dist.get(e, 0) for e in ["happy", "confident", "neutral"])\<close>\<close>

definition positive_emotions :: "(string \<times> real) list \<Rightarrow> real" where
  "positive_emotions emotion_dist =
     sum_list (map (\<lambda>e. get_or (map_of emotion_dist e) 0) [''happy'', ''confident'', ''neutral''])"

definition emotion_score :: "(string \<times> real) list \<Rightarrow> real" where
  "emotion_score emotion_dist = min 1 (positive_emotions emotion_dist / 70)"

text \<open>The facial score before rounding (the local variable \<^verbatim>\<open>facial_score\<close>).\<close>

definition facial_raw :: "emotion_summary \<Rightarrow> real" where
  "facial_raw emotion_summary =
     (if summary_truthy emotion_summary then
        eye_contact_score (get_or (eye_contact_percentage emotion_summary) 0) * 0.375 +
        get_or (average_smile_authenticity emotion_summary) 0 * 0.25 +
        get_or (average_engagement_level emotion_summary) 0 * 0.25 +
        emotion_score (get_or (emotion_distribution emotion_summary) []) * 0.125
      else 0)"

text \<open>The voice score before rounding (the local variable \<^verbatim>\<open>voice_score\<close>).\<close>

definition voice_raw :: "quality_scores \<Rightarrow> real" where
  "voice_raw qs =
     (if quality_truthy qs then
        get_or (clarity qs) 0 * 0.3 +
        get_or (confidence qs) 0 * 0.4 +
        get_or (qs_engagement qs) 0 * 0.3
      else 0)"

text \<open>
  \<^verbatim>\<open>_calculate_performance_score\<close>, on the two dictionaries it reads:
  \<^verbatim>\<open>emotion_data.get("summary", {})\<close> and \<^verbatim>\<open>audio_data.get("quality_scores", {})\<close>.
  The built-in \<^verbatim>\<open>round\<close> is the parameter \<open>rnd\<close>.
\<close>

definition score_with ::
  "(real \<Rightarrow> nat \<Rightarrow> real) \<Rightarrow> emotion_summary \<Rightarrow> quality_scores \<Rightarrow> performance_score" where
  "score_with rnd emotion_summary qs =
     (let facial = facial_raw emotion_summary;
          voice = voice_raw qs;
          overall_raw = facial * 0.4 + voice * 0.6
      in \<lparr>overall = rnd overall_raw 3,
          facial_score = rnd facial 3,
          voice_score = rnd voice 3,
          score_breakdown =
            \<lparr>bd_eye_contact =
               rnd (if summary_truthy emotion_summary
                         then eye_contact_score (get_or (eye_contact_percentage emotion_summary) 0)
                         else 0) 3,
             bd_smile_authenticity =
               rnd (if summary_truthy emotion_summary
                         then get_or (average_smile_authenticity emotion_summary) 0 else 0) 3,
             bd_engagement =
               rnd (if summary_truthy emotion_summary
                         then get_or (average_engagement_level emotion_summary) 0 else 0) 3,
             bd_voice_clarity =
               rnd (if quality_truthy qs then get_or (clarity qs) 0 else 0) 3,
             bd_voice_confidence =
               rnd (if quality_truthy qs then get_or (confidence qs) 0 else 0) 3,
             bd_voice_engagement =
               rnd (if quality_truthy qs then get_or (qs_engagement qs) 0 else 0) 3\<rparr>\<rparr>)"

text \<open>The engine with the rounding of the model.\<close>

definition score_of :: "emotion_summary \<Rightarrow> quality_scores \<Rightarrow> performance_score" where
  "score_of emotion_summary qs = score_with py_round emotion_summary qs"

definition calculate_performance_score :: "emotion_data \<Rightarrow> audio_data \<Rightarrow> performance_score" where
  "calculate_performance_score emotion_data audio_data =
     score_of (get_or (summary emotion_data) empty_summary)
              (get_or (quality audio_data) empty_quality)"

definition get_rating :: "real \<Rightarrow> string" where
  "get_rating score =
     (if 0.8 \<le> score then ''Excellent''
      else if 0.6 \<le> score then ''Good''
      else if 0.4 \<le> score then ''Fair''
      else ''Needs Improvement'')"

section \<open>Text formatting\<close>

definition digit_char :: "nat \<Rightarrow> char" where
  "digit_char d = char_of (48 + d)"

fun str_nat :: "nat \<Rightarrow> string" where
  "str_nat n = (if n < 10 then [digit_char n] else str_nat (n div 10) @ [digit_char (n mod 10)])"

declare str_nat.simps [simp del]

text \<open>\<^verbatim>\<open>str(v)\<close> of an integer.\<close>

definition str_int :: "int \<Rightarrow> string" where
  "str_int v = (if v < 0 then ''-'' @ str_nat (nat (- v)) else str_nat (nat v))"

definition zero_pad :: "nat \<Rightarrow> string \<Rightarrow> string" where
  "zero_pad w s = replicate (w - length s) CHR ''0'' @ s"

text \<open>\<^verbatim>\<open>f"{v:02d}"\<close>\<close>

definition fmt_02d :: "int \<Rightarrow> string" where
  "fmt_02d v = (if v < 0 then ''-'' @ zero_pad 1 (str_nat (nat (- v))) else zero_pad 2 (str_nat (nat v)))"

text \<open>\<^verbatim>\<open>f"{x:.nf}"\<close>: \<open>n\<close> decimals, rounded to nearest, ties to even.\<close>

definition fmt_f :: "nat \<Rightarrow> real \<Rightarrow> string" where
  "fmt_f n x =
     (let r = nat (round_half_even (\<bar>x\<bar> * 10 ^ n));
          whole = str_nat (r div 10 ^ n);
          frac = zero_pad n (str_nat (r mod 10 ^ n))
      in (if x < 0 then ''-'' else '''') @ whole @ (if n = 0 then '''' else ''.'' @ frac))"

text \<open>\<^verbatim>\<open>int(t // 60)\<close> and \<^verbatim>\<open>int(t % 60)\<close>\<close>

definition whole_minutes :: "real \<Rightarrow> int" where
  "whole_minutes t = \<lfloor>t / 60\<rfloor>"

definition whole_seconds :: "real \<Rightarrow> int" where
  "whole_seconds t = \<lfloor>t - 60 * of_int \<lfloor>t / 60\<rfloor>\<rfloor>"

section \<open>Report generator (report\_generator.py)\<close>

record metadata =
  fps :: "real option"
  frame_count :: "int option"
  width :: "int option"
  height :: "int option"
  md_duration_seconds :: "real option"

definition rg_generate_summary :: "emotion_data \<Rightarrow> audio_data \<Rightarrow> metadata \<Rightarrow> string" where
  "rg_generate_summary emotion_data audio_data md =
     (let emotion_summary = get_or (summary emotion_data) empty_summary;
          qs = get_or (quality audio_data) empty_quality;
          duration = get_or (md_duration_seconds md) 0;
          duration_str = str_int (whole_minutes duration) @ ''m '' @
                         str_int (whole_seconds duration) @ ''s'';
          dominant = get_or (dominant_emotion emotion_summary) ''neutral'';
          eye = get_or (eye_contact_percentage emotion_summary) 0;
          overall_voice = get_or (qs_overall qs) 0
      in ''Analyzed '' @ duration_str @ '' of video content. '' @
         ''Your dominant emotion was '' @ dominant @ '' with '' @ fmt_f 0 eye @
         ''% eye contact maintained. '' @
         (if 0.7 \<le> overall_voice then
            ''Your voice delivery was strong with good clarity and confidence. ''
          else if 0.5 \<le> overall_voice then
            ''Your voice delivery was adequate but has room for improvement. ''
          else
            ''Your voice delivery needs significant improvement in clarity and confidence. ''))"

definition generate_insights :: "emotion_data \<Rightarrow> audio_data \<Rightarrow> string list" where
  "generate_insights emotion_data audio_data =
     (let emotion_summary = get_or (summary emotion_data) empty_summary;
          eye = get_or (eye_contact_percentage emotion_summary) 0;
          i1 = (if 70 \<le> eye then
                  [''Strong eye contact maintained at '' @ fmt_f 0 eye @
                   ''%. This conveys confidence and engagement.'']
                else if eye < 50 then
                  [''Eye contact at '' @ fmt_f 0 eye @
                   ''% is below optimal. Aim for 60-80% to appear more confident.'']
                else []);
          smile = get_or (average_smile_authenticity emotion_summary) 0;
          i2 = (if 0.7 \<le> smile then
                  [''Your smiles appear genuine and authentic, which builds rapport.'']
                else if smile < 0.4 \<and> 0 < smile then
                  [''Smiles detected but may appear forced. Practice natural, relaxed expressions.'']
                else []);
          wpm = get_or (words_per_minute
                          (get_or (speaking_rate_analysis audio_data) empty_speaking_rate)) 0;
          i3 = (if 0 < wpm then
                  (if 120 \<le> wpm \<and> wpm \<le> 160 then
                     [''Speaking pace at '' @ fmt_f 0 wpm @
                      '' WPM is optimal for clarity and engagement.'']
                   else if 180 < wpm then
                     [''Speaking pace at '' @ fmt_f 0 wpm @
                      '' WPM is too fast. Slow down for better comprehension.'']
                   else if wpm < 100 then
                     [''Speaking pace at '' @ fmt_f 0 wpm @
                      '' WPM is too slow. Increase tempo to maintain engagement.'']
                   else [])
                else []);
          ci = get_or (confidence_indicator (get_or (energy audio_data) empty_energy)) 0;
          i4 = (if 0.7 \<le> ci then
                  [''Voice energy conveys strong confidence and authority.'']
                else if ci < 0.5 then
                  [''Voice energy is low. Project more to convey confidence and enthusiasm.'']
                else [])
      in i1 @ i2 @ i3 @ i4)"

definition identify_strengths :: "performance_score \<Rightarrow> string list" where
  "identify_strengths ps =
     (let b = score_breakdown ps;
          strengths =
            (if 0.7 \<le> bd_eye_contact b
             then [''Excellent eye contact - maintains connection with audience''] else []) @
            (if 0.7 \<le> bd_smile_authenticity b
             then [''Authentic, warm facial expressions''] else []) @
            (if 0.7 \<le> bd_voice_clarity b
             then [''Clear and well-paced speech delivery''] else []) @
            (if 0.7 \<le> bd_voice_confidence b
             then [''Confident vocal presence with good energy''] else []) @
            (if 0.7 \<le> bd_voice_engagement b
             then [''Engaging voice with good pitch variation''] else []) @
            (if 0.7 \<le> bd_engagement b
             then [''High overall engagement and presence''] else []);
          strengths' =
            (if strengths = []
             then [''Baseline performance established - focus on improvement areas below'']
             else strengths)
      in take 5 strengths')"

definition identify_weaknesses :: "audio_data \<Rightarrow> performance_score \<Rightarrow> string list" where
  "identify_weaknesses audio_data ps =
     (let b = score_breakdown ps;
          weaknesses =
            (if bd_eye_contact b < 0.5
             then [''Eye contact needs improvement - look at camera more often''] else []) @
            (if bd_smile_authenticity b < 0.4
             then [''Work on natural, authentic facial expressions''] else []) @
            (if bd_voice_clarity b < 0.5
             then [''Speech clarity - adjust pace and enunciation''] else []) @
            (if bd_voice_confidence b < 0.5
             then [''Vocal confidence - increase volume and reduce pauses''] else []) @
            (if bd_voice_engagement b < 0.5
             then [''Voice monotony - add more pitch variation and enthusiasm''] else []) @
            (if 0.7 < get_or (monotone_score
                                (get_or (prosody_analysis audio_data) empty_prosody)) 0
             then [''Voice is too monotone - vary your pitch more''] else []) @
            (if 200 < get_or (words_per_minute
                                (get_or (speaking_rate_analysis audio_data) empty_speaking_rate)) 0
             then [''Speaking too fast - slow down for better clarity''] else [])
      in take 5 weaknesses)"

subsection \<open>Improvement plan\<close>

record plan_item =
  area :: string
  current_score :: real
  priority :: string
  action :: string
  target_score :: real

text \<open>The table \<^verbatim>\<open>metrics\<close>: the breakdown key (as its reader), the title and the action.\<close>

definition plan_metrics :: "((breakdown \<Rightarrow> real) \<times> string \<times> string) list" where
  "plan_metrics =
     [(bd_eye_contact, ''Eye Contact'',
       ''Practice looking directly at the camera lens. Imagine you're talking to a friend.''),
      (bd_smile_authenticity, ''Facial Expressions'',
       ''Practice genuine smiles in the mirror. Think of something pleasant before speaking.''),
      (bd_voice_clarity, ''Speech Clarity'',
       ''Slow down by 10-20%. Enunciate clearly. Practice tongue twisters.''),
      (bd_voice_confidence, ''Vocal Confidence'',
       ''Breathe deeply. Project from your diaphragm. Record yourself daily.''),
      (bd_voice_engagement, ''Voice Variation'',
       ''Practice emphasizing key words. Vary your pitch when telling stories.'')]"

text \<open>The loop over the table: the entries below 0.6, in the order of the table.\<close>

definition plan_entries :: "breakdown \<Rightarrow> plan_item list" where
  "plan_entries b =
     concat (map (\<lambda>(metric_key, title, act).
                    (let score = metric_key b
                     in if score < 0.6 then
                          [\<lparr>area = title, current_score = py_round score 2,
                            priority = (if score < 0.4 then ''high'' else ''medium''),
                            action = act, target_score = 0.7\<rparr>]
                        else []))
                 plan_metrics)"

text \<open>
  \<^verbatim>\<open>plan.sort(key=lambda x: (x["priority"] == "high", x["current_score"]))\<close>: a stable
  ascending sort on the pair; \<open>False\<close> is below \<open>True\<close>.
\<close>

definition plan_key :: "plan_item \<Rightarrow> bool \<times> real" where
  "plan_key x = (priority x = ''high'', current_score x)"

definition create_improvement_plan :: "performance_score \<Rightarrow> plan_item list" where
  "create_improvement_plan ps =
     take 5 (sort_key plan_key (plan_entries (score_breakdown ps)))"

subsection \<open>Key moments\<close>

record key_moment =
  km_timestamp :: real
  km_type :: string
  description :: string
  timestamp_formatted :: string

definition format_timestamp :: "real \<Rightarrow> string" where
  "format_timestamp t = str_int (whole_minutes t) @ '':'' @ fmt_02d (whole_seconds t)"

text \<open>The pairs \<open>(timestamp, engagement_level)\<close> of the frames with a face.\<close>

definition engagement_scores :: "frame list \<Rightarrow> (real \<times> real) list" where
  "engagement_scores tline =
     map (\<lambda>f. (timestamp f, get_or (engagement_level f) 0)) (filter face_detected tline)"

definition top_engagement :: "frame list \<Rightarrow> (real \<times> real) list" where
  "top_engagement tline = take 3 (sorted_desc snd (engagement_scores tline))"

definition peak_moment :: "real \<times> real \<Rightarrow> key_moment" where
  "peak_moment p =
     \<lparr>km_timestamp = fst p, km_type = ''peak_engagement'',
      description = ''High engagement (score: '' @ fmt_f 2 (snd p) @ '')'',
      timestamp_formatted = format_timestamp (fst p)\<rparr>"

definition poor_eye_contact :: "frame list \<Rightarrow> frame list" where
  "poor_eye_contact tline =
     filter (\<lambda>f. face_detected f \<and> \<not> get_or (eye_contact f) True) tline"

definition sample_moments :: "frame list \<Rightarrow> frame list" where
  "sample_moments tline =
     (let poor = poor_eye_contact tline
      in if 5 < length poor then take 3 (py_slice_step (length poor div 3) poor) else [])"

definition improvement_moment :: "frame \<Rightarrow> key_moment" where
  "improvement_moment f =
     \<lparr>km_timestamp = timestamp f, km_type = ''improvement_opportunity'',
      description = ''Eye contact break - practice maintaining camera focus'',
      timestamp_formatted = format_timestamp (timestamp f)\<rparr>"

definition key_moments_of :: "frame list \<Rightarrow> key_moment list" where
  "key_moments_of tline =
     take 10 (sort_key km_timestamp
                (map peak_moment (top_engagement tline) @
                 map improvement_moment (sample_moments tline)))"

definition identify_key_moments :: "emotion_data \<Rightarrow> key_moment list" where
  "identify_key_moments emotion_data = key_moments_of (get_or (timeline emotion_data) [])"

subsection \<open>Detailed metrics and the report\<close>

record facial_metrics =
  fm_face_detection_rate :: string
  fm_eye_contact_percentage :: string
  fm_smile_authenticity :: string
  fm_engagement_level :: string
  fm_dominant_emotion :: string
  fm_emotion_distribution :: "(string \<times> real) list"
  fm_emotional_range :: string

definition format_facial_metrics :: "emotion_data \<Rightarrow> facial_metrics" where
  "format_facial_metrics emotion_data =
     (let s = get_or (summary emotion_data) empty_summary
      in \<lparr>fm_face_detection_rate = fmt_f 1 (get_or (face_detection_rate s) 0 * 100) @ ''%'',
          fm_eye_contact_percentage = fmt_f 1 (get_or (eye_contact_percentage s) 0) @ ''%'',
          fm_smile_authenticity =
            fmt_f 0 (get_or (average_smile_authenticity s) 0 * 100) @ ''/100'',
          fm_engagement_level =
            fmt_f 0 (get_or (average_engagement_level s) 0 * 100) @ ''/100'',
          fm_dominant_emotion = get_or (dominant_emotion s) ''unknown'',
          fm_emotion_distribution = get_or (emotion_distribution s) [],
          fm_emotional_range = fmt_f 0 (get_or (emotional_variability s) 0 * 100) @ ''/100''\<rparr>)"

record voice_metrics =
  vm_duration :: string
  vm_speaking_rate :: string
  vm_words_per_minute :: real
  vm_voice_clarity :: string
  vm_voice_confidence :: string
  vm_voice_engagement :: string
  vm_pause_quality :: string
  vm_pitch_variation :: string

definition format_voice_metrics :: "audio_data \<Rightarrow> voice_metrics" where
  "format_voice_metrics audio_data =
     (let sp = get_or (speaking_rate_analysis audio_data) empty_speaking_rate;
          qs = get_or (quality audio_data) empty_quality
      in \<lparr>vm_duration = fmt_f 1 (get_or (duration_seconds audio_data) 0) @ ''s'',
          vm_speaking_rate = get_or (pace sp) ''unknown'',
          vm_words_per_minute = get_or (words_per_minute sp) 0,
          vm_voice_clarity = fmt_f 0 (get_or (clarity qs) 0 * 100) @ ''/100'',
          vm_voice_confidence = fmt_f 0 (get_or (confidence qs) 0 * 100) @ ''/100'',
          vm_voice_engagement = fmt_f 0 (get_or (qs_engagement qs) 0 * 100) @ ''/100'',
          vm_pause_quality =
            get_or (pause_quality (get_or (pauses audio_data) empty_pauses)) ''unknown'',
          vm_pitch_variation =
            fmt_f 0 (get_or (variation_score
                               (get_or (prosody_analysis audio_data) empty_prosody)) 0 * 100)
            @ ''/100''\<rparr>)"

record report =
  r_performance_score :: performance_score
  r_rating :: string
  r_summary :: string
  r_insights :: "string list"
  r_strengths :: "string list"
  r_weaknesses :: "string list"
  r_improvement_plan :: "plan_item list"
  r_key_moments :: "key_moment list"
  r_facial_analysis :: facial_metrics
  r_voice_analysis :: voice_metrics
  generated_at :: string

text \<open>
  \<^verbatim>\<open>generate_report\<close>. The one reading of the environment is \<^verbatim>\<open>datetime.now()\<close>; its
  text is the argument \<open>now\<close>.
\<close>

definition generate_report :: "emotion_data \<Rightarrow> audio_data \<Rightarrow> metadata \<Rightarrow> string \<Rightarrow> report" where
  "generate_report emotion_data audio_data md now =
     (let ps = calculate_performance_score emotion_data audio_data;
          insights = generate_insights emotion_data audio_data;
          improvement_plan = create_improvement_plan ps;
          strengths = identify_strengths ps;
          weaknesses = identify_weaknesses audio_data ps;
          key_moments = identify_key_moments emotion_data
      in \<lparr>r_performance_score = ps,
          r_rating = get_rating (overall ps),
          r_summary = rg_generate_summary emotion_data audio_data md,
          r_insights = insights,
          r_strengths = strengths,
          r_weaknesses = weaknesses,
          r_improvement_plan = improvement_plan,
          r_key_moments = key_moments,
          r_facial_analysis = format_facial_metrics emotion_data,
          r_voice_analysis = format_voice_metrics audio_data,
          generated_at = now\<rparr>)"

section \<open>Concrete inputs\<close>

text \<open>A summary with 30 percent eye contact and no other entry.\<close>

definition c1_emotion :: emotion_data where
  "c1_emotion = \<lparr>timeline = None,
                  summary = Some (empty_summary\<lparr>eye_contact_percentage := Some 30\<rparr>),
                  features = None\<rparr>"

text \<open>A frame in which the detector finds no face, and a timeline of two such frames.\<close>

definition c3_detection :: detection where
  "c3_detection = \<lparr>frame_height = 480, frame_width = 640, faces = [], eyes = 0, smiles = 0\<rparr>"


text \<open>
  A clip whose loading fails, and measurements with no RMS frame. (librosa pads the
  signal and always returns at least one RMS frame, so the second stands for no clip; it
  exercises the branch of the model in which \<^verbatim>\<open>np.max\<close> raises.)
\<close>

definition c10_load_failure :: "py_error + measurements" where
  "c10_load_failure = Inl (OtherError ''No such file or directory'')"

definition c10_no_rms :: "py_error + measurements" where
  "c10_no_rms = Inr \<lparr>n_samples = 0, pitch_track = [], onsets = [], rms = [],
                      intervals_20 = [], intervals_25 = []\<rparr>"

text \<open>
  A summary and audio scores whose breakdown has one entry of medium priority
  (eye contact, 0.5) and one of high priority (smile authenticity, 0.1).
\<close>

definition c4_emotion :: emotion_data where
  "c4_emotion = \<lparr>timeline = None,
     summary = Some (empty_summary\<lparr>eye_contact_percentage := Some 40,
                                    average_smile_authenticity := Some 0.1,
                                    average_engagement_level := Some 0.8\<rparr>),
     features = None\<rparr>"

definition c4_audio :: audio_data where
  "c4_audio = empty_audio\<lparr>quality := Some \<lparr>clarity = Some 0.8, confidence = Some 0.8,
                                              qs_engagement = Some 0.8, qs_overall = Some 0.8\<rparr>\<rparr>"

text \<open>
  A 640 x 480 frame with one centred face, two eyes and a smile; two analysed frames,
  the first without a face.
\<close>

definition c9_face :: detection where
  "c9_face = \<lparr>frame_height = 480, frame_width = 640, faces = [(220, 140, 200, 200)],
               eyes = 2, smiles = 1\<rparr>"

definition c9_frames :: "detection list" where
  "c9_frames = [c3_detection, c9_face]"

text \<open>
  A centred face with two eyes and no smile (labelled neutral), and a timeline whose
  labels are neutral, happy, happy, neutral: a tie.
\<close>

definition c5_neutral :: detection where
  "c5_neutral = \<lparr>frame_height = 480, frame_width = 640, faces = [(220, 140, 200, 200)],
                  eyes = 2, smiles = 0\<rparr>"

definition c5_timeline :: "frame list" where
  "c5_timeline = frames_timeline [c5_neutral, c9_face, c9_face, c5_neutral]"








section \<open>Rounding\<close>

lemma round_half_even_near: "\<bar>of_int (round_half_even y) - y\<bar> \<le> 1 / 2"
  unfolding round_half_even_def Let_def by (auto simp: abs_le_iff)

lemma py_round_near: "\<bar>py_round x n - x\<bar> \<le> 1 / (2 * 10 ^ n)"
proof -
  have p: "(0::real) < 10 ^ n" by simp
  have "\<bar>py_round x n - x\<bar> = \<bar>of_int (round_half_even (x * 10 ^ n)) - x * 10 ^ n\<bar> / 10 ^ n"
    using p by (simp add: py_round_def field_simps abs_divide flip: abs_mult)
  also have "\<dots> \<le> (1 / 2) / 10 ^ n"
    by (rule divide_right_mono [OF round_half_even_near]) simp
  finally show ?thesis by simp
qed

lemma round_half_even_of_int [simp]: "round_half_even (of_int k) = k"
  by (simp add: round_half_even_def)

lemma py_round_zero [simp]: "py_round 0 n = 0"
  using round_half_even_of_int [of 0] by (simp add: py_round_def del: round_half_even_of_int)

lemma score_of_fields:
  "overall (score_of s q) = py_round (facial_raw s * 0.4 + voice_raw q * 0.6) 3"
  "facial_score (score_of s q) = py_round (facial_raw s) 3"
  "voice_score (score_of s q) = py_round (voice_raw q) 3"
  by (simp_all add: score_of_def score_with_def Let_def)

section \<open>C1: the overall score and the weighted sum of the stored sub-scores\<close>

lemma c1_score:
  "calculate_performance_score c1_emotion empty_audio =
     \<lparr>overall = 0.056, facial_score = 0.141, voice_score = 0,
      score_breakdown = \<lparr>bd_eye_contact = 0.375, bd_smile_authenticity = 0, bd_engagement = 0,
         bd_voice_clarity = 0, bd_voice_confidence = 0, bd_voice_engagement = 0\<rparr>\<rparr>"
  by (simp add: calculate_performance_score_def c1_emotion_def empty_audio_def score_of_def score_with_def
      facial_raw_def voice_raw_def summary_truthy_def quality_truthy_def empty_summary_def
      get_or_def eye_contact_score_def emotion_score_def positive_emotions_def py_round_def
      round_half_even_def Let_def)

text \<open>
  C1, as stated, fails. For a summary with 30 percent eye contact and nothing else, and
  no audio scores, the stored values are overall = 0.056, facial\_score = 0.141 and
  voice\_score = 0: the weighted sum of the stored sub-scores is 0.0564, and the stored
  overall differs from it by 0.0004, far more than 1e-9.
\<close>

theorem overall_exact_counterexample:
  "\<not> \<bar>overall (calculate_performance_score c1_emotion empty_audio) -
        (0.4 * facial_score (calculate_performance_score c1_emotion empty_audio) +
         0.6 * voice_score (calculate_performance_score c1_emotion empty_audio))\<bar> \<le> 1 / 10 ^ 9"
  by (simp add: c1_score)

text \<open>
  C1, amended. The three stored values are each rounded to three decimals on their own:
  overall is the rounding of 0.4 f + 0.6 v, where f and v are the unrounded facial and
  voice scores, and facial\_score and voice\_score are the roundings of f and v. For
  every rounding that puts these three values within half a unit of the third decimal,
  up to an error \<open>eps\<close> (Python's rounding of doubles does, with \<open>eps\<close> the
  floating-point error), the stored overall is within \<open>0.001 + 2 eps\<close> of the weighted
  sum of the stored sub-scores. The engine of the model is the instance with the
  rounding \<open>py_round\<close>.
\<close>

theorem overall_weighted_sum_within_rounding:
  assumes "\<bar>rnd (facial_raw s * 0.4 + voice_raw q * 0.6) 3 -
             (facial_raw s * 0.4 + voice_raw q * 0.6)\<bar> \<le> 1 / 2000 + eps"
    and "\<bar>rnd (facial_raw s) 3 - facial_raw s\<bar> \<le> 1 / 2000 + eps"
    and "\<bar>rnd (voice_raw q) 3 - voice_raw q\<bar> \<le> 1 / 2000 + eps"
  shows "overall (score_with rnd s q) = rnd (facial_raw s * 0.4 + voice_raw q * 0.6) 3 \<and>
         facial_score (score_with rnd s q) = rnd (facial_raw s) 3 \<and>
         voice_score (score_with rnd s q) = rnd (voice_raw q) 3 \<and>
         \<bar>overall (score_with rnd s q) -
           (0.4 * facial_score (score_with rnd s q) +
            0.6 * voice_score (score_with rnd s q))\<bar> \<le> 1 / 1000 + 2 * eps \<and>
         calculate_performance_score ed ad =
           score_with py_round (get_or (summary ed) empty_summary)
                               (get_or (quality ad) empty_quality)"
proof -
  have f: "overall (score_with rnd s q) = rnd (facial_raw s * 0.4 + voice_raw q * 0.6) 3"
    "facial_score (score_with rnd s q) = rnd (facial_raw s) 3"
    "voice_score (score_with rnd s q) = rnd (voice_raw q) 3"
    by (simp_all add: score_with_def Let_def)
  define f' v' o' where "f' = rnd (facial_raw s) 3" and "v' = rnd (voice_raw q) 3"
    and "o' = rnd (facial_raw s * 0.4 + voice_raw q * 0.6) 3"
  define fr vr where "fr = facial_raw s" and "vr = voice_raw q"
  have h: "\<bar>o' - (fr * 0.4 + vr * 0.6)\<bar> \<le> 1 / 2000 + eps" "\<bar>f' - fr\<bar> \<le> 1 / 2000 + eps"
    "\<bar>v' - vr\<bar> \<le> 1 / 2000 + eps"
    using assms by (simp_all add: f'_def v'_def o'_def fr_def vr_def)
  have "\<bar>o' - (0.4 * f' + 0.6 * v')\<bar> \<le> 1 / 1000 + 2 * eps"
    using h by argo
  then have b: "\<bar>overall (score_with rnd s q) -
           (0.4 * facial_score (score_with rnd s q) +
            0.6 * voice_score (score_with rnd s q))\<bar> \<le> 1 / 1000 + 2 * eps"
    unfolding f f'_def v'_def o'_def .
  have c: "calculate_performance_score ed ad =
           score_with py_round (get_or (summary ed) empty_summary)
                               (get_or (quality ad) empty_quality)"
    by (simp add: calculate_performance_score_def score_of_def)
  show ?thesis using f b c by simp
qed

theorem overall_weighted_sum_within_rounding_witness:
  "\<bar>overall (calculate_performance_score c1_emotion empty_audio) -
      (0.4 * facial_score (calculate_performance_score c1_emotion empty_audio) +
       0.6 * voice_score (calculate_performance_score c1_emotion empty_audio))\<bar> \<le> 1 / 1000 \<and>
   overall (calculate_performance_score c1_emotion empty_audio) = 0.056 \<and>
   facial_score (calculate_performance_score c1_emotion empty_audio) = 0.141 \<and>
   voice_score (calculate_performance_score c1_emotion empty_audio) = 0"
proof -
  let ?s = "get_or (summary c1_emotion) empty_summary"
  let ?q = "get_or (quality empty_audio) empty_quality"
  have h: "\<bar>py_round x 3 - x\<bar> \<le> 1 / 2000 + 0" for x
    using py_round_near [of x 3] by simp
  note t = overall_weighted_sum_within_rounding [of py_round ?s ?q 0 c1_emotion empty_audio,
      OF h h h]
  from t have "\<bar>overall (score_with py_round ?s ?q) -
           (0.4 * facial_score (score_with py_round ?s ?q) +
            0.6 * voice_score (score_with py_round ?s ?q))\<bar> \<le> 1 / 1000 + 2 * 0"
    by blast
  moreover from t
  have "calculate_performance_score c1_emotion empty_audio = score_with py_round ?s ?q"
    by blast
  ultimately have "\<bar>overall (calculate_performance_score c1_emotion empty_audio) -
      (0.4 * facial_score (calculate_performance_score c1_emotion empty_audio) +
       0.6 * voice_score (calculate_performance_score c1_emotion empty_audio))\<bar> \<le> 1 / 1000"
    by simp
  then show ?thesis by (simp add: c1_score)
qed

section \<open>C7: the eye-contact score and the eye-contact percentage\<close>








section \<open>Scores of absent dictionaries\<close>

lemma voice_raw_empty [simp]: "voice_raw empty_quality = 0"
  by (simp add: voice_raw_def quality_truthy_def)


lemma breakdown_no_quality:
  "bd_voice_clarity (score_breakdown (score_of s empty_quality)) = 0"
  "bd_voice_confidence (score_breakdown (score_of s empty_quality)) = 0"
  "bd_voice_engagement (score_breakdown (score_of s empty_quality)) = 0"
  by (simp_all add: score_of_def score_with_def Let_def quality_truthy_def)


section \<open>C3: no face in any frame\<close>





section \<open>C10: a failing audio analysis\<close>

text \<open>
  C10. \<^verbatim>\<open>analyze_audio\<close> returns a dictionary on every input. When anything inside its
  \<^verbatim>\<open>try\<close> raises, the dictionary holds the error message and a duration of 0 and has
  no quality scores; the scoring engine applied to it gives a voice score of 0 and the
  three voice entries of the breakdown are 0.
\<close>

theorem audio_failure_handled:
  assumes "audio_try_body loaded = Inl e"
  shows "analyze_audio loaded =
           empty_audio\<lparr>audio_error := Some (''Audio analysis failed: '' @ str_of_error e),
                       duration_seconds := Some 0\<rparr> \<and>
         audio_error (analyze_audio loaded) \<noteq> None \<and>
         duration_seconds (analyze_audio loaded) = Some 0 \<and>
         quality (analyze_audio loaded) = None \<and>
         voice_score (calculate_performance_score ed (analyze_audio loaded)) = 0 \<and>
         bd_voice_clarity
           (score_breakdown (calculate_performance_score ed (analyze_audio loaded))) = 0 \<and>
         bd_voice_confidence
           (score_breakdown (calculate_performance_score ed (analyze_audio loaded))) = 0 \<and>
         bd_voice_engagement
           (score_breakdown (calculate_performance_score ed (analyze_audio loaded))) = 0"
proof -
  have a: "analyze_audio loaded =
           empty_audio\<lparr>audio_error := Some (''Audio analysis failed: '' @ str_of_error e),
                       duration_seconds := Some 0\<rparr>"
    using assms by (simp add: analyze_audio_def)
  have q: "quality (analyze_audio loaded) = None"
    by (simp add: a empty_audio_def)
  show ?thesis
    using q breakdown_no_quality
    by (simp add: a calculate_performance_score_def score_of_fields get_or_def empty_audio_def)
qed

lemma c10_load_failure_fails:
  "audio_try_body c10_load_failure = Inl (OtherError ''No such file or directory'')"
  by (simp add: audio_try_body_def c10_load_failure_def)

lemma c10_no_rms_fails:
  "audio_try_body c10_no_rms =
     Inl (ValueError ''zero-size array to reduction operation maximum which has no identity'')"
  by (simp add: audio_try_body_def c10_no_rms_def analyze_energy_def Let_def)

theorem audio_failure_handled_witness:
  "audio_try_body c10_load_failure = Inl (OtherError ''No such file or directory'') \<and>
   audio_error (analyze_audio c10_load_failure) =
     Some ''Audio analysis failed: No such file or directory'' \<and>
   duration_seconds (analyze_audio c10_load_failure) = Some 0 \<and>
   quality (analyze_audio c10_load_failure) = None \<and>
   voice_score (calculate_performance_score c1_emotion (analyze_audio c10_load_failure)) = 0 \<and>
   quality (analyze_audio c10_no_rms) = None \<and>
   voice_score (calculate_performance_score c1_emotion (analyze_audio c10_no_rms)) = 0"
proof -
  note a = audio_failure_handled [OF c10_load_failure_fails, of c1_emotion]
  note b = audio_failure_handled [OF c10_no_rms_fails, of c1_emotion]
  have "audio_error (analyze_audio c10_load_failure) =
          audio_error (empty_audio\<lparr>audio_error :=
            Some (''Audio analysis failed: '' @
                  str_of_error (OtherError ''No such file or directory'')),
            duration_seconds := Some 0\<rparr>)"
    using a by metis
  then have e: "audio_error (analyze_audio c10_load_failure) =
                  Some ''Audio analysis failed: No such file or directory''"
    by simp
  show ?thesis
    using a b e c10_load_failure_fails by blast
qed

section \<open>C2: the energy analysis of a silent clip\<close>

lemma np_var_nonneg: "0 \<le> np_var xs"
proof -
  have "0 \<le> sum_list (map (\<lambda>x. (x - np_mean xs)\<^sup>2) xs)"
    by (rule sum_list_nonneg) auto
  then show ?thesis
    by (simp add: np_var_def np_mean_def [of "map _ _"])
qed

lemma np_std_nonneg: "0 \<le> np_std xs"
  by (simp add: np_std_def np_var_nonneg)

lemma min_one_ratio_finite: "\<exists>m. py_min_one (energy_ratio xs) = Fin m"
  using np_std_nonneg [of xs]
  by (auto simp: energy_ratio_def np_div_def py_min_one_def)

text \<open>
  The score components stay in the unit interval: for RMS frames that are not negative,
  each component that the quality scores read is in \<open>[0, 1]\<close>, and so are the four
  rounded quality scores.
\<close>

lemma round_half_even_bounds:
  assumes "0 \<le> y" "y \<le> of_int N"
  shows "0 \<le> round_half_even y \<and> round_half_even y \<le> N"
proof -
  have f0: "0 \<le> \<lfloor>y\<rfloor>" using assms(1) by simp
  have fN: "\<lfloor>y\<rfloor> \<le> N" using assms(2) by (simp add: floor_le_iff)
  show ?thesis
  proof (cases "\<lfloor>y\<rfloor> = N")
    case True
    then have "y = of_int N" using assms(2) by linarith
    then show ?thesis using f0 True by (simp add: round_half_even_def)
  next
    case False
    then have "\<lfloor>y\<rfloor> + 1 \<le> N" using fN by simp
    then show ?thesis using f0 fN by (auto simp: round_half_even_def Let_def)
  qed
qed

lemma py_round_unit:
  assumes "0 \<le> x" "x \<le> 1"
  shows "0 \<le> py_round x n \<and> py_round x n \<le> 1"
proof -
  have "0 \<le> x * 10 ^ n" using assms(1) by simp
  moreover have "x * 10 ^ n \<le> of_int (10 ^ n)" using assms(2) by (simp add: mult_left_le_one_le)
  ultimately have "0 \<le> round_half_even (x * 10 ^ n) \<and> round_half_even (x * 10 ^ n) \<le> 10 ^ n"
    by (rule round_half_even_bounds)
  then have "0 \<le> real_of_int (round_half_even (x * 10 ^ n)) \<and>
             real_of_int (round_half_even (x * 10 ^ n)) \<le> 10 ^ n"
    by (metis of_int_0_le_iff of_int_le_iff of_int_numeral of_int_power)
  then show ?thesis by (simp add: py_round_def)
qed

lemma ratio_unit: "real (length (filter P xs)) / real (length xs) \<le> 1"
  "0 \<le> real (length (filter P xs)) / real (length xs)"
  by (simp_all add: divide_le_eq_1)

lemma np_mean_nonneg: "\<forall>r \<in> set xs. 0 \<le> r \<Longrightarrow> 0 \<le> np_mean xs"
  by (simp add: np_mean_def sum_list_nonneg)

lemma analyze_energy_unit:
  assumes "analyze_energy rms_frames = Inr en" "\<forall>r \<in> set rms_frames. 0 \<le> r"
  shows "\<exists>c i. consistency_score en = Some c \<and> 0 \<le> c \<and> c \<le> 1 \<and>
               confidence_indicator en = Some i \<and> 0 \<le> i \<and> i \<le> 1"
proof -
  have ne: "rms_frames \<noteq> []" using assms(1) by (auto simp: analyze_energy_def)
  let ?c = "case py_min_one (energy_ratio rms_frames) of Fin m \<Rightarrow> 1 - m | _ \<Rightarrow> 0"
  have m: "0 \<le> np_mean rms_frames" using assms(2) by (rule np_mean_nonneg)
  have s: "0 \<le> np_std rms_frames" by (rule np_std_nonneg)
  have c: "0 \<le> ?c \<and> ?c \<le> 1"
  proof (cases "np_mean rms_frames = 0")
    case True
    then show ?thesis by (simp add: energy_ratio_def np_div_def py_min_one_def)
  next
    case False
    then have "0 \<le> np_std rms_frames / np_mean rms_frames" using m s by simp
    then show ?thesis using False by (simp add: energy_ratio_def np_div_def py_min_one_def)
  qed
  show ?thesis
    using assms(1) ne c ratio_unit [of "\<lambda>r. r < np_mean rms_frames * 0.5" rms_frames]
    by (auto simp: analyze_energy_def Let_def)
qed

lemma pace_score_unit:
  "0 \<le> get_or (pace_score (analyze_speaking_rate n ons)) 0.5 \<and>
   get_or (pace_score (analyze_speaking_rate n ons)) 0.5 \<le> 1"
  by (simp add: analyze_speaking_rate_def empty_speaking_rate_def get_or_def Let_def)

lemma naturalness_unit:
  "0 \<le> get_or (naturalness_score (analyze_pauses n iv)) 0.5 \<and>
   get_or (naturalness_score (analyze_pauses n iv)) 0.5 \<le> 1"
  using ratio_unit [of "\<lambda>p. 0.3 \<le> p \<and> p \<le> 0.8" "pause_durations iv"]
  by (simp add: analyze_pauses_def empty_pauses_def get_or_def Let_def
      calculate_pause_naturalness_def split: prod.split)

lemma prosody_unit:
  "0 < get_or (monotone_score (analyze_prosody tr)) 0.5 \<and>
   get_or (monotone_score (analyze_prosody tr)) 0.5 \<le> 1 \<and>
   0 \<le> get_or (variation_score (analyze_prosody tr)) 0.5 \<and>
   get_or (variation_score (analyze_prosody tr)) 0.5 \<le> 1"
  using np_std_nonneg [of "pitch_values tr"]
  by (simp add: analyze_prosody_def empty_prosody_def get_or_def Let_def divide_le_eq_1)

lemma expressiveness_unit:
  "0 \<le> get_or (expressiveness (analyze_pitch tr)) 0.5 \<and>
   get_or (expressiveness (analyze_pitch tr)) 0.5 \<le> 1"
proof -
  have "min 1 (s / 80) * (1 - \<bar>s - 50\<bar> / 100) \<le> 1" if "0 \<le> s" for s :: real
  proof -
    have a: "0 \<le> min 1 (s / 80)" "min 1 (s / 80) \<le> 1" using that by simp_all
    have b: "1 - \<bar>s - 50\<bar> / 100 \<le> 1" by simp
    have "min 1 (s / 80) * (1 - \<bar>s - 50\<bar> / 100) \<le> min 1 (s / 80) * 1"
      using a(1) b by (rule mult_left_mono [rotated])
    then show ?thesis using a(2) by simp
  qed
  then show ?thesis
    using np_std_nonneg [of "pitch_values tr"]
    by (simp add: analyze_pitch_def empty_pitch_def get_or_def Let_def)
qed

lemma quality_scores_unit:
  assumes "audio_try_body (Inr m) = Inr ad" "\<forall>r \<in> set (rms m). 0 \<le> r"
  shows "\<exists>c f e ov. quality ad = Some \<lparr>clarity = Some c, confidence = Some f,
                                      qs_engagement = Some e, qs_overall = Some ov\<rparr> \<and>
           0 \<le> c \<and> c \<le> 1 \<and> 0 \<le> f \<and> f \<le> 1 \<and> 0 \<le> e \<and> e \<le> 1 \<and> 0 \<le> ov \<and> ov \<le> 1"
proof -
  define pr where "pr = analyze_prosody (pitch_track m)"
  define sp where "sp = analyze_speaking_rate (n_samples m) (onsets m)"
  define pa where "pa = analyze_pauses (n_samples m) (intervals_20 m)"
  define pt where "pt = analyze_pitch (pitch_track m)"
  from assms(1) obtain en where en: "analyze_energy (rms m) = Inr en"
    by (auto simp: audio_try_body_def Let_def split: sum.splits)
  have q: "quality ad = Some (calculate_quality_scores pr sp en pa pt)"
    using assms(1) en
    by (auto simp: audio_try_body_def Let_def pr_def sp_def pa_def pt_def split: sum.splits)
  from analyze_energy_unit [OF en assms(2)] obtain cs ci where e:
      "consistency_score en = Some cs" "0 \<le> cs" "cs \<le> 1"
      "confidence_indicator en = Some ci" "0 \<le> ci" "ci \<le> 1"
    by blast
  note p = pace_score_unit [of "n_samples m" "onsets m", folded sp_def]
  note n = naturalness_unit [of "n_samples m" "intervals_20 m", folded pa_def]
  note r = prosody_unit [of "pitch_track m", folded pr_def]
  note x = expressiveness_unit [of "pitch_track m", folded pt_def]
  define pace' where "pace' = get_or (pace_score sp) 0.5"
  define nat' where "nat' = get_or (naturalness_score pa) 0.5"
  define mnt where "mnt = get_or (monotone_score pr) 0.5"
  define var where "var = get_or (variation_score pr) 0.5"
  define expr where "expr = get_or (expressiveness pt) 0.5"
  have ecs: "get_or (consistency_score en) 0.5 = cs" and eci: "get_or (confidence_indicator en) 0.5 = ci"
    by (simp_all add: e(1,4) get_or_def)
  have b: "0 \<le> pace'" "pace' \<le> 1" "0 \<le> nat'" "nat' \<le> 1" "0 < mnt" "mnt \<le> 1"
    "0 \<le> var" "var \<le> 1" "0 \<le> expr" "expr \<le> 1"
    using p n r x unfolding pace'_def nat'_def mnt_def var_def expr_def by simp_all
  have cd: "clarity_raw sp en = pace' * 0.6 + cs * 0.4"
    "confidence_raw pr en pa = ci * 0.5 + (1 - mnt) * 0.3 + nat' * 0.2"
    "engagement_raw pr pt = var * 0.4 + expr * 0.4 + (1 - mnt) * 0.2"
    unfolding clarity_raw_def confidence_raw_def engagement_raw_def ecs eci
      pace'_def nat'_def mnt_def var_def expr_def by simp_all
  have c: "0 \<le> clarity_raw sp en" "clarity_raw sp en \<le> 1"
    unfolding cd using b e(2,3) by argo+
  have f: "0 \<le> confidence_raw pr en pa" "confidence_raw pr en pa \<le> 1"
    unfolding cd using b e(5,6) by argo+
  have g: "0 \<le> engagement_raw pr pt" "engagement_raw pr pt \<le> 1"
    unfolding cd using b by argo+
  have o: "0 \<le> clarity_raw sp en * 0.3 + confidence_raw pr en pa * 0.4 + engagement_raw pr pt * 0.3"
    "clarity_raw sp en * 0.3 + confidence_raw pr en pa * 0.4 + engagement_raw pr pt * 0.3 \<le> 1"
    using c f g by argo+
  show ?thesis
    unfolding q calculate_quality_scores_def Let_def
    using py_round_unit [OF c] py_round_unit [OF f] py_round_unit [OF g] py_round_unit [OF o]
    by simp
qed

text \<open>
  C2 at a silent clip: three RMS frames, all 0. The mean energy is 0, and the quotient
  \<^verbatim>\<open>energy_std / mean_energy\<close> is 0 / 0: no guard precedes it, numpy warns and returns
  nan, and \<^verbatim>\<open>min(1.0, nan)\<close> is 1.0, so the consistency score 0 that is handed to
  the quality scores is the result of a division by zero.
\<close>

theorem silent_energy_divides_by_zero:
  "np_mean [0, 0, 0] = 0 \<and>
   energy_ratio [0, 0, 0] = NaN \<and>
   analyze_energy [0, 0, 0] =
     Inr \<lparr>mean_energy = Some 0, energy_variation = Some 0, dynamic_range = Some 0,
          consistency_score = Some 0, low_energy_ratio = Some 0,
          confidence_indicator = Some 1\<rparr>"
  by (simp add: analyze_energy_def energy_ratio_def np_div_def np_std_def np_var_def np_mean_def
      np_max_def np_min_def py_min_one_def Let_def)

section \<open>C4: the order of the improvement plan\<close>

lemma c4_breakdown:
  "score_breakdown (calculate_performance_score c4_emotion c4_audio) =
     \<lparr>bd_eye_contact = 0.5, bd_smile_authenticity = 0.1, bd_engagement = 0.8,
      bd_voice_clarity = 0.8, bd_voice_confidence = 0.8, bd_voice_engagement = 0.8\<rparr>"
  by (simp add: calculate_performance_score_def c4_emotion_def c4_audio_def empty_audio_def
      score_of_def score_with_def summary_truthy_def quality_truthy_def empty_summary_def empty_quality_def
      get_or_def eye_contact_score_def py_round_def round_half_even_def Let_def)

text \<open>
  The plan is the stable ascending sort of the selected entries on the pair
  (priority is high, current score); nothing is cut off, as there are at most five.
\<close>

lemma plan_entries_short: "length (plan_entries b) \<le> 5"
  by (simp add: plan_entries_def plan_metrics_def Let_def)

lemma plan_is_sorted_entries:
  "create_improvement_plan ps = sort_key plan_key (plan_entries (score_breakdown ps))"
  using plan_entries_short [of "score_breakdown ps"] by (simp add: create_improvement_plan_def)

lemma plan_ascending: "sorted (map plan_key (create_improvement_plan ps))"
  unfolding plan_is_sorted_entries by (rule sorted_sort_key)

text \<open>
  C4 at a breakdown with eye contact 0.5 and smile authenticity 0.1 (the other entries
  0.8): the plan lists the entry of medium priority first and the entry of high priority
  last, since the sort is ascending on the pair (priority is high, current score) and
  \<open>False\<close> is below \<open>True\<close>.
\<close>

theorem plan_medium_before_high:
  "create_improvement_plan (calculate_performance_score c4_emotion c4_audio) =
     [\<lparr>area = ''Eye Contact'', current_score = 0.5, priority = ''medium'',
       action = ''Practice looking directly at the camera lens. Imagine you're talking to a friend.'',
       target_score = 0.7\<rparr>,
      \<lparr>area = ''Facial Expressions'', current_score = 0.1, priority = ''high'',
       action = ''Practice genuine smiles in the mirror. Think of something pleasant before speaking.'',
       target_score = 0.7\<rparr>]"
  by (simp add: create_improvement_plan_def c4_breakdown plan_entries_def plan_metrics_def
      plan_key_def py_round_def round_half_even_def Let_def)

section \<open>C9: timestamps count analysed frames in fifths of a second\<close>

lemma slice_index_bound:
  assumes "0 < k" "i < (n + k - 1) div k"
  shows "i * k < (n::nat)"
proof -
  have "Suc i \<le> (n + k - 1) div k" using assms by simp
  then have "Suc i * k \<le> ((n + k - 1) div k) * k" by (rule mult_le_mono1)
  also have "\<dots> \<le> n + k - 1" by (simp add: div_times_less_eq_dividend)
  finally show ?thesis using assms by simp
qed

lemma py_slice_step_subset: "0 < k \<Longrightarrow> set (py_slice_step k xs) \<subseteq> set xs"
  by (auto simp: py_slice_step_def slice_index_bound)

lemma sample_moments_poor: "set (sample_moments tline) \<subseteq> set (poor_eye_contact tline)"
proof (cases "5 < length (poor_eye_contact tline)")
  case True
  then have k: "0 < length (poor_eye_contact tline) div 3" by simp
  have "set (take 3 (py_slice_step (length (poor_eye_contact tline) div 3) (poor_eye_contact tline)))
          \<subseteq> set (py_slice_step (length (poor_eye_contact tline) div 3) (poor_eye_contact tline))"
    by (rule set_take_subset)
  also have "\<dots> \<subseteq> set (poor_eye_contact tline)"
    by (rule py_slice_step_subset [OF k])
  finally show ?thesis using True by (simp add: sample_moments_def Let_def)
next
  case False
  then show ?thesis by (simp add: sample_moments_def Let_def)
qed

lemma top_engagement_subset: "set (top_engagement tline) \<subseteq> set (engagement_scores tline)"
  using set_take_subset [of 3 "sorted_desc snd (engagement_scores tline)"]
  by (simp add: top_engagement_def sorted_desc_def)

lemma key_moments_subset:
  "set (key_moments_of tline) \<subseteq>
     peak_moment ` set (top_engagement tline) \<union> improvement_moment ` set (sample_moments tline)"
proof -
  have "set (key_moments_of tline) \<subseteq>
          set (sort_key km_timestamp
                (map peak_moment (top_engagement tline) @
                 map improvement_moment (sample_moments tline)))"
    unfolding key_moments_of_def by (rule set_take_subset)
  then show ?thesis by simp
qed

lemma key_moment_from_frame:
  assumes "m \<in> set (key_moments_of tline)"
  shows "\<exists>f \<in> set tline. face_detected f \<and> km_timestamp m = timestamp f"
proof -
  from assms key_moments_subset
  consider p where "p \<in> set (top_engagement tline)" "m = peak_moment p"
    | f where "f \<in> set (sample_moments tline)" "m = improvement_moment f"
    by blast
  then show ?thesis
  proof cases
    case 1
    then have "p \<in> set (engagement_scores tline)" using top_engagement_subset by blast
    then obtain f where "f \<in> set tline" "face_detected f" "fst p = timestamp f"
      by (auto simp: engagement_scores_def)
    with 1 show ?thesis by (auto simp: peak_moment_def)
  next
    case 2
    then have "f \<in> set (poor_eye_contact tline)" using sample_moments_poor by blast
    then have "f \<in> set tline" "face_detected f" by (simp_all add: poor_eye_contact_def)
    with 2 show ?thesis by (auto simp: improvement_moment_def)
  qed
qed

lemma frames_timeline_nth:
  "j < length ds \<Longrightarrow> frames_timeline ds ! j = analyze_single_frame (ds ! j) j"
  by (simp add: frames_timeline_def nth_enumerate_eq)

lemma analyze_single_frame_timestamp: "timestamp (analyze_single_frame d i) = real i / 5"
  by (simp add: analyze_single_frame_def Let_def split: option.split prod.split)

lemma frames_timeline_timestamp:
  assumes "f \<in> set (frames_timeline ds)"
  shows "\<exists>i < length ds. timestamp f = real i / 5"
proof -
  have l: "length (frames_timeline ds) = length ds" by (simp add: frames_timeline_def)
  from assms obtain j where "j < length ds" "f = frames_timeline ds ! j"
    by (metis in_set_conv_nth l)
  then show ?thesis
    using frames_timeline_nth analyze_single_frame_timestamp by auto
qed


text \<open>
  C9. The record of frame \<open>i\<close> has the timestamp \<open>i / 5\<close>, with or without a face.
  The analyzer is not given the frame rate of the video nor the stride of the
  extraction: whatever they are, the \<open>j\<close>-th extracted frame gets \<open>j / 5\<close>. Every key
  moment carries the timestamp of an analysed frame, so it is \<open>i / 5\<close> for the index
  \<open>i\<close> of one of them.
\<close>

theorem timestamps_in_fifths:
  "timestamp (analyze_single_frame d i) = real i / 5 \<and>
   (\<forall>j < length (extract_frames fps' video).
      timestamp (frames_timeline (extract_frames fps' video) ! j) = real j / 5) \<and>
   (\<forall>m \<in> set (key_moments_of (frames_timeline ds)).
      \<exists>i < length ds. km_timestamp m = real i / 5)"
proof (intro conjI allI impI ballI)
  show "timestamp (analyze_single_frame d i) = real i / 5"
    by (rule analyze_single_frame_timestamp)
next
  fix j assume "j < length (extract_frames fps' video)"
  then show "timestamp (frames_timeline (extract_frames fps' video) ! j) = real j / 5"
    by (simp add: frames_timeline_nth analyze_single_frame_timestamp)
next
  fix m assume "m \<in> set (key_moments_of (frames_timeline ds))"
  then obtain f where "f \<in> set (frames_timeline ds)" "km_timestamp m = timestamp f"
    using key_moment_from_frame by blast
  then show "\<exists>i < length ds. km_timestamp m = real i / 5"
    using frames_timeline_timestamp by force
qed

lemma c9_timeline:
  "frames_timeline c9_frames =
     [analyze_single_frame c3_detection 0, analyze_single_frame c9_face (Suc 0)]"
  by (simp add: frames_timeline_def c9_frames_def enumerate_simps)

lemma c9_frame0: "face_detected (analyze_single_frame c3_detection 0) = False"
  by (simp add: analyze_single_frame_def c3_detection_def)

lemma c9_frame1:
  "face_detected (analyze_single_frame c9_face (Suc 0)) = True"
  "timestamp (analyze_single_frame c9_face (Suc 0)) = 1 / 5"
  "engagement_level (analyze_single_frame c9_face (Suc 0)) = Some 1"
  "eye_contact (analyze_single_frame c9_face (Suc 0)) = Some True"
  by (simp_all add: analyze_single_frame_def c9_face_def Let_def calculate_engagement_def)

lemma c9_moments:
  "key_moments_of (frames_timeline c9_frames) = [peak_moment (1 / 5, 1)]"
  by (simp add: c9_timeline key_moments_of_def top_engagement_def sorted_desc_def
      engagement_scores_def sample_moments_def poor_eye_contact_def c9_frame0 c9_frame1
      get_or_def Let_def)

theorem timestamps_in_fifths_witness:
  "length (extract_frames 30 c9_frames) = 1 \<and>
   timestamp (frames_timeline (extract_frames 30 c9_frames) ! 0) = 0 \<and>
   key_moments_of (frames_timeline c9_frames) = [peak_moment (1 / 5, 1)] \<and>
   (\<exists>i < length c9_frames. km_timestamp (peak_moment (1 / 5, 1)) = real i / 5)"
proof -
  note t = timestamps_in_fifths [of c3_detection 0 30 c9_frames c9_frames]
  have l: "length (extract_frames 30 c9_frames) = 1"
    by (simp add: extract_frames_def frame_interval_def frame_rate_def py_slice_step_def
        c9_frames_def)
  have a: "timestamp (frames_timeline (extract_frames 30 c9_frames) ! 0) = 0"
    using t l by simp
  have m: "peak_moment (1 / 5, 1) \<in> set (key_moments_of (frames_timeline c9_frames))"
    by (simp add: c9_moments)
  have b: "\<exists>i < length c9_frames. km_timestamp (peak_moment (1 / 5, 1)) = real i / 5"
    using t m by blast
  show ?thesis using l a b c9_moments by simp
qed

section \<open>C5: the dominant emotion\<close>

subsection \<open>Counter\<close>

lemma counter_add_keys:
  "map fst (counter_add x acc) =
     (if x \<in> set (map fst acc) then map fst acc else map fst acc @ [x])"
  by (induction acc) (auto split: if_splits)

lemma counter_add_map_of:
  "map_of (counter_add x acc) =
     (map_of acc)(x \<mapsto> (case map_of acc x of None \<Rightarrow> 1 | Some c \<Rightarrow> Suc c))"
  by (induction acc) (auto simp: fun_eq_iff)

lemma Counter_snoc: "Counter (xs @ [x]) = counter_add x (Counter xs)"
  by (simp add: Counter_def)

lemma Counter_keys_snoc:
  "map fst (Counter (xs @ [x])) =
     (if x \<in> set (map fst (Counter xs)) then map fst (Counter xs)
      else map fst (Counter xs) @ [x])"
  by (simp only: Counter_snoc counter_add_keys)

lemma Counter_keys_set: "set (map fst (Counter xs)) = set xs"
proof (induction xs rule: rev_induct)
  case Nil
  then show ?case by (simp add: Counter_def)
next
  case (snoc x xs)
  define ks where "ks = map fst (Counter xs)"
  have "set ks = set xs" using snoc by (simp add: ks_def)
  moreover have "map fst (Counter (xs @ [x])) = (if x \<in> set ks then ks else ks @ [x])"
    unfolding ks_def by (rule Counter_keys_snoc)
  ultimately show ?case by auto
qed

lemma Counter_map_of:
  "map_of (Counter xs) e = (if e \<in> set xs then Some (count_list xs e) else None)"
proof (induction xs rule: rev_induct)
  case Nil
  then show ?case by (simp add: Counter_def)
next
  case (snoc x xs)
  then show ?case
    by (auto simp: Counter_snoc counter_add_map_of)
qed

lemma Counter_distinct: "distinct (map fst (Counter xs))"
proof (induction xs rule: rev_induct)
  case Nil
  then show ?case by (simp add: Counter_def)
next
  case (snoc x xs)
  define ks where "ks = map fst (Counter xs)"
  have "distinct ks" using snoc by (simp add: ks_def)
  moreover have "map fst (Counter (xs @ [x])) = (if x \<in> set ks then ks else ks @ [x])"
    unfolding ks_def by (rule Counter_keys_snoc)
  ultimately show ?case by auto
qed

text \<open>The position of the first occurrence.\<close>

lemma first_pos_append:
  "e \<in> set xs \<Longrightarrow>
     length (takeWhile (\<lambda>y. y \<noteq> e) (xs @ [x])) = length (takeWhile (\<lambda>y. y \<noteq> e) xs)"
  using takeWhile_append1 [of e xs "\<lambda>y. y \<noteq> e" "[x]"] by simp

lemma first_pos_less: "e \<in> set xs \<Longrightarrow> length (takeWhile (\<lambda>y. y \<noteq> e) xs) < length xs"
  by (induction xs) auto

lemma first_pos_new: "x \<notin> set xs \<Longrightarrow> length (takeWhile (\<lambda>y. y \<noteq> x) (xs @ [x])) = length xs"
  by (induction xs) auto

lemma Counter_keys_order:
  "sorted_wrt (\<lambda>a b. length (takeWhile (\<lambda>y. y \<noteq> a) xs) < length (takeWhile (\<lambda>y. y \<noteq> b) xs))
     (map fst (Counter xs))"
proof (induction xs rule: rev_induct)
  case Nil
  then show ?case by (simp add: Counter_def)
next
  case (snoc x xs)
  define ks where "ks = map fst (Counter xs)"
  define pos where "pos = (\<lambda>zs (a::'a). length (takeWhile (\<lambda>y. y \<noteq> a) zs))"
  have ks: "set ks = set xs" unfolding ks_def by (rule Counter_keys_set)
  have ih: "sorted_wrt (\<lambda>a b. pos xs a < pos xs b) ks"
    using snoc by (simp add: ks_def pos_def)
  have same: "pos (xs @ [x]) a = pos xs a" if "a \<in> set ks" for a
    using that ks by (simp add: pos_def first_pos_append)
  have old: "sorted_wrt (\<lambda>a b. pos (xs @ [x]) a < pos (xs @ [x]) b) ks"
    by (rule sorted_wrt_mono_rel [OF _ ih]) (simp add: same)
  have keys: "map fst (Counter (xs @ [x])) = (if x \<in> set ks then ks else ks @ [x])"
    unfolding ks_def by (rule Counter_keys_snoc)
  have "sorted_wrt (\<lambda>a b. pos (xs @ [x]) a < pos (xs @ [x]) b) (map fst (Counter (xs @ [x])))"
  proof (cases "x \<in> set ks")
    case True
    then show ?thesis using old keys by simp
  next
    case False
    then have "x \<notin> set xs" using ks by simp
    then have "pos (xs @ [x]) x = length xs" by (simp add: pos_def first_pos_new)
    moreover have "pos (xs @ [x]) a < length xs" if "a \<in> set ks" for a
      using that ks same [OF that] by (simp add: pos_def first_pos_less)
    ultimately have "\<forall>a \<in> set ks. pos (xs @ [x]) a < pos (xs @ [x]) x" by simp
    then show ?thesis using old keys False by (simp add: sorted_wrt_append)
  qed
  then show ?case by (simp add: pos_def)
qed

subsection \<open>max with a key\<close>

lemma foldl_max_first:
  fixes f :: "'a \<Rightarrow> 'b::linorder"
  defines "step \<equiv> \<lambda>b y. if f b < f y then y else b"
  shows "\<exists>i < length (x # xs). foldl step x xs = (x # xs) ! i \<and>
           (\<forall>j < length (x # xs). f ((x # xs) ! j) \<le> f (foldl step x xs)) \<and>
           (\<forall>j < i. f ((x # xs) ! j) < f (foldl step x xs))"
proof (induction xs rule: rev_induct)
  case Nil
  then show ?case by simp
next
  case (snoc y xs)
  define l where "l = x # xs"
  define r where "r = foldl step x xs"
  have l': "x # xs @ [y] = l @ [y]" by (simp add: l_def)
  have r': "foldl step x (xs @ [y]) = (if f r < f y then y else r)"
    by (simp add: r_def step_def)
  from snoc obtain i where i: "i < length l" "r = l ! i"
      "\<forall>j < length l. f (l ! j) \<le> f r" "\<forall>j < i. f (l ! j) < f r"
    unfolding l_def r_def by blast
  have nth_old: "(l @ [y]) ! j = l ! j" if "j < length l" for j
    using that by (simp add: nth_append)
  have nth_new: "(l @ [y]) ! length l = y"
    by simp
  have cases_j: "j < length l \<or> j = length l" if "j < length (l @ [y])" for j
    using that by auto
  have "\<exists>i < length (l @ [y]). (if f r < f y then y else r) = (l @ [y]) ! i \<and>
           (\<forall>j < length (l @ [y]). f ((l @ [y]) ! j) \<le> f (if f r < f y then y else r)) \<and>
           (\<forall>j < i. f ((l @ [y]) ! j) < f (if f r < f y then y else r))"
  proof (cases "f r < f y")
    case True
    have a: "\<forall>j < length (l @ [y]). f ((l @ [y]) ! j) \<le> f y"
    proof (intro allI impI)
      fix j assume "j < length (l @ [y])"
      then have "j < length l \<or> j = length l" by (rule cases_j)
      then show "f ((l @ [y]) ! j) \<le> f y"
      proof
        assume j: "j < length l"
        then have "f (l ! j) \<le> f r" using i(3) by blast
        then show ?thesis using True nth_old [OF j] by simp
      next
        assume "j = length l"
        then show ?thesis using nth_new by simp
      qed
    qed
    have b: "\<forall>j < length l. f ((l @ [y]) ! j) < f y"
    proof (intro allI impI)
      fix j assume j: "j < length l"
      then have "f (l ! j) \<le> f r" using i(3) by blast
      then show "f ((l @ [y]) ! j) < f y" using True nth_old [OF j] by simp
    qed
    show ?thesis
    proof (intro exI [of _ "length l"] conjI)
      show "length l < length (l @ [y])" by simp
      show "(if f r < f y then y else r) = (l @ [y]) ! length l" using True by simp
      show "\<forall>j < length (l @ [y]). f ((l @ [y]) ! j) \<le> f (if f r < f y then y else r)"
        using a True by simp
      show "\<forall>j < length l. f ((l @ [y]) ! j) < f (if f r < f y then y else r)"
        using b True by simp
    qed
  next
    case False
    have a: "\<forall>j < length (l @ [y]). f ((l @ [y]) ! j) \<le> f r"
    proof (intro allI impI)
      fix j assume "j < length (l @ [y])"
      then have "j < length l \<or> j = length l" by (rule cases_j)
      then show "f ((l @ [y]) ! j) \<le> f r"
      proof
        assume j: "j < length l"
        then show ?thesis using i(3) nth_old [OF j] by simp
      next
        assume "j = length l"
        then show ?thesis using nth_new False by simp
      qed
    qed
    have b: "\<forall>j < i. f ((l @ [y]) ! j) < f r"
    proof (intro allI impI)
      fix j assume j: "j < i"
      then have "j < length l" using i(1) by simp
      then show "f ((l @ [y]) ! j) < f r" using i(4) j nth_old by simp
    qed
    have c: "r = (l @ [y]) ! i" using i(1,2) nth_old by simp
    show ?thesis
    proof (intro exI [of _ i] conjI)
      show "i < length (l @ [y])" using i(1) by simp
      show "(if f r < f y then y else r) = (l @ [y]) ! i" using False c by simp
      show "\<forall>j < length (l @ [y]). f ((l @ [y]) ! j) \<le> f (if f r < f y then y else r)"
        using a False by simp
      show "\<forall>j < i. f ((l @ [y]) ! j) < f (if f r < f y then y else r)"
        using b False by simp
    qed
  qed
  then show ?case unfolding l' r' .
qed

lemma py_max_key_first:
  assumes "py_max_key f l = Some r"
  shows "\<exists>i < length l. r = l ! i \<and> (\<forall>j < length l. f (l ! j) \<le> f r) \<and>
           (\<forall>j < i. f (l ! j) < f r)"
proof -
  from assms obtain x xs where l: "l = x # xs"
      "r = foldl (\<lambda>b y. if f b < f y then y else b) x xs"
    by (cases l) auto
  show ?thesis using foldl_max_first [of x xs f] unfolding l by blast
qed

lemma most_common_1_first:
  assumes "c \<noteq> []"
  shows "\<exists>i < length c. most_common_1 c = [c ! i] \<and>
           (\<forall>j < length c. snd (c ! j) \<le> snd (c ! i)) \<and> (\<forall>j < i. snd (c ! j) < snd (c ! i))"
proof -
  from assms obtain r where r: "py_max_key snd c = Some r"
    by (cases c) auto
  from py_max_key_first [OF r] show ?thesis
    by (auto simp: most_common_1_def r)
qed

lemma Counter_nonempty: "xs \<noteq> [] \<Longrightarrow> Counter xs \<noteq> []"
  using Counter_keys_set [of xs] by auto

lemma Counter_count:
  assumes "i < length (Counter xs)"
  shows "snd (Counter xs ! i) = count_list xs (fst (Counter xs ! i))"
    and "fst (Counter xs ! i) \<in> set xs"
proof -
  have m: "Counter xs ! i \<in> set (Counter xs)" using assms by simp
  then have "map_of (Counter xs) (fst (Counter xs ! i)) = Some (snd (Counter xs ! i))"
    using Counter_distinct [of xs] by simp
  moreover show k: "fst (Counter xs ! i) \<in> set xs"
    using m Counter_keys_set [of xs] by force
  ultimately show "snd (Counter xs ! i) = count_list xs (fst (Counter xs ! i))"
    by (simp add: Counter_map_of)
qed

lemma dominant_first_seen:
  assumes "emotions \<noteq> []"
  shows "\<exists>d n. most_common_1 (Counter emotions) = [(d, n)] \<and> d \<in> set emotions \<and>
           (\<forall>e. count_list emotions e \<le> count_list emotions d) \<and>
           (\<forall>e \<in> set emotions. count_list emotions e = count_list emotions d \<longrightarrow>
              length (takeWhile (\<lambda>y. y \<noteq> d) emotions)
                \<le> length (takeWhile (\<lambda>y. y \<noteq> e) emotions))"
proof -
  define c where "c = Counter emotions"
  define pos where "pos = (\<lambda>a. length (takeWhile (\<lambda>y. y \<noteq> a) emotions))"
  have ne: "c \<noteq> []" using assms by (simp add: c_def Counter_nonempty)
  from most_common_1_first [OF ne] obtain i where i: "i < length c"
      "most_common_1 c = [c ! i]" "\<forall>j < length c. snd (c ! j) \<le> snd (c ! i)"
      "\<forall>j < i. snd (c ! j) < snd (c ! i)"
    by blast
  define d where "d = fst (c ! i)"
  have cnt: "snd (c ! j) = count_list emotions (fst (c ! j))" if "j < length c" for j
    using that Counter_count(1) [of j emotions] by (simp add: c_def)
  have key_at: "\<exists>j < length c. fst (c ! j) = e" if "e \<in> set emotions" for e
  proof -
    have "e \<in> set (map fst c)" using that Counter_keys_set [of emotions] by (simp add: c_def)
    then show ?thesis by (metis in_set_conv_nth length_map nth_map)
  qed
  have d_in: "d \<in> set emotions"
    using Counter_count(2) [of i emotions] i(1) by (simp add: c_def d_def)
  have max: "count_list emotions e \<le> count_list emotions d" for e
  proof (cases "e \<in> set emotions")
    case True
    then obtain j where "j < length c" "fst (c ! j) = e" using key_at by blast
    then show ?thesis using i(1,3) cnt d_def by metis
  next
    case False
    then show ?thesis by (simp add: count_list_0_iff)
  qed
  have ord: "sorted_wrt (\<lambda>a b. pos a < pos b) (map fst c)"
    using Counter_keys_order [of emotions] by (simp add: c_def pos_def)
  have tie: "pos d \<le> pos e" if "e \<in> set emotions" "count_list emotions e = count_list emotions d" for e
  proof -
    from that(1) obtain j where j: "j < length c" "fst (c ! j) = e" using key_at by blast
    have "\<not> j < i"
    proof
      assume "j < i"
      then have "snd (c ! j) < snd (c ! i)" using i(4) by blast
      then show False using cnt [OF j(1)] cnt [OF i(1)] j(2) that(2) d_def by simp
    qed
    then consider "i = j" | "i < j" by linarith
    then show ?thesis
    proof cases
      case 1 then show ?thesis using j(2) d_def by simp
    next
      case 2
      then have "pos (map fst c ! i) < pos (map fst c ! j)"
        using ord j(1) by (simp add: sorted_wrt_iff_nth_less)
      then show ?thesis using j i(1) d_def by simp
    qed
  qed
  have "most_common_1 (Counter emotions) = [(d, snd (c ! i))]"
    using i(2) by (simp add: c_def d_def)
  then show ?thesis using d_in max tie unfolding pos_def by blast
qed


lemma labels_count:
  assumes "\<forall>f \<in> set valid. emotion f \<noteq> None"
  shows "count_list (map (\<lambda>f. the (emotion f)) valid) e =
           length (filter (\<lambda>f. emotion f = Some e) valid)"
  using assms
proof (induction valid)
  case Nil
  then show ?case by simp
next
  case (Cons f fs)
  then obtain l where "emotion f = Some l" by auto
  then show ?case using Cons by simp
qed

lemma labels_first:
  assumes "\<forall>f \<in> set valid. emotion f \<noteq> None"
  shows "length (takeWhile (\<lambda>y. y \<noteq> e) (map (\<lambda>f. the (emotion f)) valid)) =
           length (takeWhile (\<lambda>f. emotion f \<noteq> Some e) valid)"
  using assms
proof (induction valid)
  case Nil
  then show ?case by simp
next
  case (Cons f fs)
  then obtain l where "emotion f = Some l" by auto
  then show ?case using Cons by simp
qed

lemma labels_member:
  assumes "\<forall>f \<in> set valid. emotion f \<noteq> None"
  shows "e \<in> set (map (\<lambda>f. the (emotion f)) valid) \<longleftrightarrow> (\<exists>f \<in> set valid. emotion f = Some e)"
  using assms
proof (induction valid)
  case Nil
  then show ?case by simp
next
  case (Cons f fs)
  then obtain l where "emotion f = Some l" by auto
  then show ?case using Cons by auto
qed

text \<open>
  C5. When at least one frame has a face and every frame with a face carries its label,
  the summary is produced and its dominant emotion is a label of a frame with a face
  such that no label is carried by more frames with a face; and among the labels
  carried by as many frames, it is the one whose first frame comes earliest in the order
  of the frames.
\<close>

theorem dominant_emotion_argmax_first_seen:
  assumes "filter face_detected tline \<noteq> []"
    and "\<forall>f \<in> set tline. face_detected f \<longrightarrow> emotion f \<noteq> None"
  shows "\<exists>s d. generate_summary tline = Inr s \<and> dominant_emotion s = Some d \<and>
           (\<exists>f \<in> set tline. face_detected f \<and> emotion f = Some d) \<and>
           (\<forall>e. length (filter (\<lambda>f. face_detected f \<and> emotion f = Some e) tline)
                  \<le> length (filter (\<lambda>f. face_detected f \<and> emotion f = Some d) tline)) \<and>
           (\<forall>e. (\<exists>f \<in> set tline. face_detected f \<and> emotion f = Some e) \<and>
                length (filter (\<lambda>f. face_detected f \<and> emotion f = Some e) tline) =
                length (filter (\<lambda>f. face_detected f \<and> emotion f = Some d) tline) \<longrightarrow>
                length (takeWhile (\<lambda>f. emotion f \<noteq> Some d) (filter face_detected tline))
                  \<le> length (takeWhile (\<lambda>f. emotion f \<noteq> Some e) (filter face_detected tline)))"
proof -
  define valid where "valid = filter face_detected tline"
  define emotions where "emotions = map (\<lambda>f. the (emotion f)) valid"
  have lab: "\<forall>f \<in> set valid. emotion f \<noteq> None"
    using assms(2) by (simp add: valid_def)
  have fe: "frame_emotions valid = Inr emotions"
    using lab by (simp add: frame_emotions_def emotions_def)
  have ne: "emotions \<noteq> []"
    using assms(1) by (simp add: emotions_def valid_def)
  have cnt: "count_list emotions e = length (filter (\<lambda>f. face_detected f \<and> emotion f = Some e) tline)"
    for e
    using labels_count [OF lab, of e]
    by (simp add: emotions_def valid_def conj_commute)
  have pos: "length (takeWhile (\<lambda>y. y \<noteq> e) emotions) =
             length (takeWhile (\<lambda>f. emotion f \<noteq> Some e) (filter face_detected tline))" for e
    using labels_first [OF lab, of e] by (simp add: emotions_def valid_def)
  have mem: "e \<in> set emotions \<longleftrightarrow> (\<exists>f \<in> set tline. face_detected f \<and> emotion f = Some e)" for e
    using labels_member [OF lab, of e] by (auto simp: emotions_def valid_def)
  from dominant_first_seen [OF ne] obtain d n where d:
      "most_common_1 (Counter emotions) = [(d, n)]" "d \<in> set emotions"
      "\<forall>e. count_list emotions e \<le> count_list emotions d"
      "\<forall>e \<in> set emotions. count_list emotions e = count_list emotions d \<longrightarrow>
         length (takeWhile (\<lambda>y. y \<noteq> d) emotions) \<le> length (takeWhile (\<lambda>y. y \<noteq> e) emotions)"
    by blast
  have g: "\<exists>s. generate_summary tline = Inr s \<and> dominant_emotion s = Some d"
    using assms(1) fe d(1) by (simp add: generate_summary_def Let_def valid_def)
  have p1: "\<exists>f \<in> set tline. face_detected f \<and> emotion f = Some d"
    using d(2) mem by blast
  have p2: "\<forall>e. length (filter (\<lambda>f. face_detected f \<and> emotion f = Some e) tline)
                  \<le> length (filter (\<lambda>f. face_detected f \<and> emotion f = Some d) tline)"
    using d(3) unfolding cnt .
  have p3: "\<forall>e. (\<exists>f \<in> set tline. face_detected f \<and> emotion f = Some e) \<and>
                length (filter (\<lambda>f. face_detected f \<and> emotion f = Some e) tline) =
                length (filter (\<lambda>f. face_detected f \<and> emotion f = Some d) tline) \<longrightarrow>
                length (takeWhile (\<lambda>f. emotion f \<noteq> Some d) (filter face_detected tline))
                  \<le> length (takeWhile (\<lambda>f. emotion f \<noteq> Some e) (filter face_detected tline))"
  proof (intro allI impI, elim conjE)
    fix e
    assume "\<exists>f \<in> set tline. face_detected f \<and> emotion f = Some e"
      and "length (filter (\<lambda>f. face_detected f \<and> emotion f = Some e) tline) =
           length (filter (\<lambda>f. face_detected f \<and> emotion f = Some d) tline)"
    then have "e \<in> set emotions" "count_list emotions e = count_list emotions d"
      by (simp_all add: mem cnt)
    then have "length (takeWhile (\<lambda>y. y \<noteq> d) emotions) \<le> length (takeWhile (\<lambda>y. y \<noteq> e) emotions)"
      using d(4) by blast
    then show "length (takeWhile (\<lambda>f. emotion f \<noteq> Some d) (filter face_detected tline))
                 \<le> length (takeWhile (\<lambda>f. emotion f \<noteq> Some e) (filter face_detected tline))"
      by (simp only: pos)
  qed
  from g obtain s where s: "generate_summary tline = Inr s" "dominant_emotion s = Some d"
    by blast
  show ?thesis
    by (intro exI [of _ s] exI [of _ d] conjI s p1 p2 p3)
qed

lemma c5_neutral_frame:
  "face_detected (analyze_single_frame c5_neutral i)"
  "emotion (analyze_single_frame c5_neutral i) = Some ''neutral''"
  by (simp_all add: analyze_single_frame_def c5_neutral_def Let_def estimate_emotion_def
      sorted_desc_def)

lemma c9_face_frame:
  "face_detected (analyze_single_frame c9_face i)"
  "emotion (analyze_single_frame c9_face i) = Some ''happy''"
  by (simp_all add: analyze_single_frame_def c9_face_def Let_def estimate_emotion_def
      sorted_desc_def)

lemma c5_frames:
  "c5_timeline = [analyze_single_frame c5_neutral 0, analyze_single_frame c9_face (Suc 0),
                  analyze_single_frame c9_face 2, analyze_single_frame c5_neutral 3]"
  by (simp add: c5_timeline_def frames_timeline_def enumerate_simps eval_nat_numeral)

theorem dominant_emotion_argmax_first_seen_witness:
  "map face_detected c5_timeline = [True, True, True, True] \<and>
   map emotion c5_timeline = [Some ''neutral'', Some ''happy'', Some ''happy'', Some ''neutral''] \<and>
   (\<exists>s. generate_summary c5_timeline = Inr s \<and> dominant_emotion s = Some ''neutral'')"
proof -
  have fd: "map face_detected c5_timeline = [True, True, True, True]"
    and em: "map emotion c5_timeline =
               [Some ''neutral'', Some ''happy'', Some ''happy'', Some ''neutral'']"
    by (simp_all add: c5_frames c5_neutral_frame c9_face_frame)
  have h1: "filter face_detected c5_timeline \<noteq> []"
    by (simp add: c5_frames c5_neutral_frame)
  have h2: "\<forall>f \<in> set c5_timeline. face_detected f \<longrightarrow> emotion f \<noteq> None"
    by (simp add: c5_frames c5_neutral_frame c9_face_frame)
  from dominant_emotion_argmax_first_seen [OF h1 h2] obtain s d where sd:
      "generate_summary c5_timeline = Inr s" "dominant_emotion s = Some d"
      "\<exists>f \<in> set c5_timeline. face_detected f \<and> emotion f = Some d"
      "\<forall>e. (\<exists>f \<in> set c5_timeline. face_detected f \<and> emotion f = Some e) \<and>
           length (filter (\<lambda>f. face_detected f \<and> emotion f = Some e) c5_timeline) =
           length (filter (\<lambda>f. face_detected f \<and> emotion f = Some d) c5_timeline) \<longrightarrow>
           length (takeWhile (\<lambda>f. emotion f \<noteq> Some d) (filter face_detected c5_timeline))
             \<le> length (takeWhile (\<lambda>f. emotion f \<noteq> Some e) (filter face_detected c5_timeline))"
    by blast
  from sd(3) have "d = ''neutral'' \<or> d = ''happy''"
    by (auto simp: c5_frames c5_neutral_frame c9_face_frame)
  then have "d = ''neutral''"
  proof
    assume "d = ''neutral''" then show ?thesis .
  next
    assume h: "d = ''happy''"
    have "length (takeWhile (\<lambda>f. emotion f \<noteq> Some ''happy'') (filter face_detected c5_timeline))
             \<le> length (takeWhile (\<lambda>f. emotion f \<noteq> Some ''neutral'')
                         (filter face_detected c5_timeline))"
      using sd(4) [rule_format, of "''neutral''"] unfolding h
      by (simp add: c5_frames c5_neutral_frame c9_face_frame)
    then show ?thesis
      by (simp add: c5_frames c5_neutral_frame c9_face_frame)
  qed
  then show ?thesis using fd em sd(1,2) by blast
qed

section \<open>C6: key moments\<close>

subsection \<open>A stable sort of a list that is ordered by a second key\<close>










lemma length_top_engagement:
  "length (top_engagement tline) = min 3 (length (filter face_detected tline))"
  by (simp add: top_engagement_def sorted_desc_def engagement_scores_def min.commute)

lemma length_sample_moments: "length (sample_moments tline) \<le> 3"
  by (simp add: sample_moments_def Let_def)

lemma key_moments_all:
  "key_moments_of tline =
     sort_key km_timestamp (map peak_moment (top_engagement tline) @
                            map improvement_moment (sample_moments tline))"
proof -
  have "length (map peak_moment (top_engagement tline) @
                map improvement_moment (sample_moments tline)) \<le> 10"
    using length_sample_moments [of tline] by (simp add: length_top_engagement)
  then show ?thesis by (simp add: key_moments_of_def)
qed




lemma key_moments_improvements:
  "filter (\<lambda>m. km_type m = ''improvement_opportunity'') (key_moments_of tline) =
     sort_key km_timestamp (map improvement_moment (sample_moments tline))"
  unfolding key_moments_all
  by (simp add: filter_sort filter_map comp_def peak_moment_def improvement_moment_def)















end
